theory Spec2Isabelle
  imports Complex_Main "HOL-Library.Monad_Syntax"
begin

section \<open>Data-quality plane of an IFU cube: a model of \<open>cube_dq_utils.c\<close>\<close>

text \<open>
  The development follows \<open>jwst/cube_build/src/cube_dq_utils.c\<close> function by function.

  \<^item> A C \<open>int\<close> or \<open>long\<close> is an \<open>int\<close>; the grid and point counts the routines work on are
    far from the limits of the machine types, and no claim below depends on overflow.
  \<^item> A C \<open>double\<close> is a \<open>real\<close>: the arithmetic on doubles is the exact one, and
    infinities and NaN have no counterpart. Where the C would produce one of them (a
    division by a zero sampling step) the model returns \<open>None\<close>.
  \<^item> A narrowing to C \<open>float\<close> is written out wherever the source stores into a
    \<open>float\<close> variable: the conversion is the parameter \<open>f32\<close> of the routines that
    narrow. General statements hold for every \<open>f32\<close>;
    evaluations at concrete inputs use small integers, which single precision holds
    exactly, and take the identity for \<open>f32\<close>.
  \<^item> An array is a list. A read or write outside the list is undefined behaviour in C;
    the model returns \<open>None\<close> for the whole call as soon as one happens.
  \<^item> An output parameter is an argument and a component of the result.
\<close>

subsection \<open>Conversions and array access\<close>

text \<open>\<open>(int) x\<close> for a double \<open>x\<close>: truncation toward zero.\<close>

definition c_int_of_double :: "real \<Rightarrow> int" where
  "c_int_of_double x = (if 0 \<le> x then \<lfloor>x\<rfloor> else \<lceil>x\<rceil>)"

text \<open>\<open>a[i]\<close> as an rvalue; \<open>None\<close> outside the array.\<close>

definition rd :: "'a list \<Rightarrow> int \<Rightarrow> 'a option" where
  "rd a i = (if 0 \<le> i \<and> i < int (length a) then Some (a ! nat i) else None)"

text \<open>\<open>a[i] = v\<close>; \<open>None\<close> outside the array.\<close>

definition wr :: "'a list \<Rightarrow> int \<Rightarrow> 'a \<Rightarrow> 'a list option" where
  "wr a i v = (if 0 \<le> i \<and> i < int (length a) then Some (a[nat i := v]) else None)"

text \<open>
  A counted \<open>for\<close> loop: the body runs once for each index of the list, in order, on
  the loop's variables \<open>s\<close>; the loop stops with \<open>None\<close> as soon as the body does.
\<close>

primrec for_loop :: "'i list \<Rightarrow> ('i \<Rightarrow> 's \<Rightarrow> 's option) \<Rightarrow> 's \<Rightarrow> 's option" where
  "for_loop [] body s = Some s"
| "for_loop (k # ks) body s =
     (case body k s of None \<Rightarrow> None | Some s' \<Rightarrow> for_loop ks body s')"

subsection \<open>\<open>overlap_slice_with_spaxels\<close>: the line coverage rasterizer\<close>

text \<open>
  The \<open>for (x = x1; x < (x2 + 1); x++)\<close> loop of the source (lines 560 to 576). The
  loop variables are \<open>x\<close>, \<open>y\<close>, \<open>error\<close> and the scratch buffer; everything else is
  fixed when the loop starts.
\<close>

function slice_loop ::
  "int \<Rightarrow> int \<Rightarrow> bool \<Rightarrow> int \<Rightarrow> int \<Rightarrow> int \<Rightarrow> int \<Rightarrow>
   int \<Rightarrow> int \<Rightarrow> int \<Rightarrow> int list \<Rightarrow> int list option" where
  "slice_loop overlap_partial naxis1 is_steep x2 dx dy ystep x y error wave_slice_dq =
     (if x < x2 + 1 then
        (let yuse = (if is_steep then x else y);
             xuse = (if is_steep then y else x);
             index = (yuse * naxis1) + xuse
         in case wr wave_slice_dq index overlap_partial of
              None \<Rightarrow> None
            | Some dq \<Rightarrow>
               (let error = error - \<bar>dy\<bar>
                in if error < 0
                   then slice_loop overlap_partial naxis1 is_steep x2 dx dy ystep
                          (x + 1) (y + ystep) (error + dx) dq
                   else slice_loop overlap_partial naxis1 is_steep x2 dx dy ystep
                          (x + 1) y error dq))
      else Some wave_slice_dq)"
  by pat_completeness auto
termination
  by (relation "measure (\<lambda>(p, n, s, x2, dx, dy, ys, x, y, e, dq). nat (x2 + 1 - x))") auto

declare slice_loop.simps [simp del]

text \<open>
  The body of the routine up to the loop, statement by statement. The two blocks that
  the source comments as swaps are sequences of plain assignments, and are modelled as
  such: each \<open>let\<close> rebinds the variable the C statement assigns.
\<close>

definition overlap_slice_with_spaxels ::
  "int \<Rightarrow> real \<Rightarrow> real \<Rightarrow> int \<Rightarrow> int \<Rightarrow> real \<Rightarrow> real \<Rightarrow>
   real \<Rightarrow> real \<Rightarrow> real \<Rightarrow> real \<Rightarrow> int list \<Rightarrow> int list option" where
  "overlap_slice_with_spaxels overlap_partial cdelt1 cdelt2 naxis1 naxis2 xstart ystart
       xi_min eta_min xi_max eta_max wave_slice_dq =
     (if cdelt1 = 0 \<or> cdelt2 = 0 then None
      else
        let x1 = c_int_of_double ((xi_min - xstart) / cdelt1);
            y1 = c_int_of_double ((eta_min - ystart) / cdelt2);
            x2 = c_int_of_double ((xi_max - xstart) / cdelt1);
            y2 = c_int_of_double ((eta_max - ystart) / cdelt2);
            dx = x2 - x1;
            dy = y2 - y1;
            is_steep = (\<bar>dy\<bar> > \<bar>dx\<bar>);
            (x1, y1, x2, y2) =
              (if is_steep
               then (let x1 = y1; y1 = x1; x2 = y2; y2 = x2 in (x1, y1, x2, y2))
               else (x1, y1, x2, y2));
            (x1, y1, x2, y2) =
              (if x1 > x2
               then (let x1 = x2; x2 = x1; y1 = y2; y2 = y1 in (x1, y1, x2, y2))
               else (x1, y1, x2, y2));
            dx = x2 - x1;
            dy = y2 - y1;
            error = c_int_of_double (real_of_int dx / 2);
            ystep = (if y1 < y2 then 1 else - 1)
        in slice_loop overlap_partial naxis1 is_steep x2 dx dy ystep x1 y1 error
             wave_slice_dq)"


subsection \<open>\<open>mem_alloc_dq\<close>: the allocation utility\<close>

text \<open>
  \<open>calloc\<close> either hands out a zeroed array or returns the null pointer. Whether the
  allocator can serve a request is not decided by the program: it is the argument
  \<open>ok\<close>. A negative element count converts to a size that no allocator serves.
  The null pointer is \<open>None\<close>.
\<close>

definition calloc_int :: "bool \<Rightarrow> int \<Rightarrow> int list option" where
  "calloc_int ok nelem = (if ok \<and> 0 \<le> nelem then Some (replicate (nat nelem) 0) else None)"

text \<open>
  \<open>mem_alloc_dq\<close>: the status, and the pointer stored in \<open>*idqv\<close> (null after a
  failure).
\<close>

definition mem_alloc_dq :: "bool \<Rightarrow> int \<Rightarrow> int \<times> int list option" where
  "mem_alloc_dq ok nelem =
     (case calloc_int ok nelem of None \<Rightarrow> (1, None) | Some a \<Rightarrow> (0, Some a))"

subsection \<open>\<open>corner_wave_plane_miri\<close>: the FOV boundary finder\<close>

text \<open>
  The source tracks, for the start slice and again for the end slice, four running
  extrema and the index of the point that set each. The record holds one slice's
  eight variables: \<open>c1_min s\<close> of the start record is \<open>c1_start_min\<close>, \<open>ic2_max e\<close>
  of the end record is \<open>ic2_end_max\<close>, and so on.
\<close>

record slice_extrema =
  c1_min :: real
  ic1_min :: int
  c1_max :: real
  ic1_max :: int
  c2_min :: real
  ic2_min :: int
  c2_max :: real
  ic2_max :: int

text \<open>The initial values of lines 108 to 128.\<close>

definition extrema_init :: slice_extrema where
  "extrema_init =
     \<lparr>c1_min = 10000, ic1_min = - 1, c1_max = - 10000, ic1_max = - 1,
      c2_min = 10000, ic2_min = - 1, c2_max = - 10000, ic2_max = - 1\<rparr>"

text \<open>The four tests of lines 153 to 171 (and 182 to 197), in the source's order.\<close>

definition track_extrema :: "slice_extrema \<Rightarrow> int \<Rightarrow> real \<Rightarrow> real \<Rightarrow> slice_extrema" where
  "track_extrema e ipt c1 c2 =
     (let e = (if c1 < c1_min e then e\<lparr>c1_min := c1, ic1_min := ipt\<rparr> else e);
          e = (if c1 > c1_max e then e\<lparr>c1_max := c1, ic1_max := ipt\<rparr> else e);
          e = (if c2 < c2_min e then e\<lparr>c2_min := c2, ic2_min := ipt\<rparr> else e);
          e = (if c2 > c2_max e then e\<lparr>c2_max := c2, ic2_max := ipt\<rparr> else e)
      in e)"

text \<open>
  One iteration of the loop over the point cloud (lines 136 to 200). The state is the
  pair of the start slice's and the end slice's extrema.
\<close>

definition miri_point ::
  "(real \<Rightarrow> real) \<Rightarrow> int \<Rightarrow> int \<Rightarrow> int \<Rightarrow> real \<Rightarrow> real list \<Rightarrow>
   real list \<Rightarrow> real list \<Rightarrow> real list \<Rightarrow> real list \<Rightarrow>
   int \<Rightarrow> slice_extrema \<times> slice_extrema \<Rightarrow> (slice_extrema \<times> slice_extrema) option" where
  "miri_point f32 w start_region end_region roiw_ave zc coord1 coord2 wave sliceno ipt se =
     do {
       sl \<leftarrow> rd sliceno ipt;
       zw \<leftarrow> rd zc w;
       wv \<leftarrow> rd wave ipt;
       let slice = c_int_of_double sl;
       let wave_distance = \<bar>zw - wv\<bar>;
       if slice = start_region \<or> slice = end_region then
         do {
           s \<leftarrow> (if wave_distance < roiw_ave \<and> slice = start_region then
                  do {
                    x \<leftarrow> rd coord1 ipt;
                    y \<leftarrow> rd coord2 ipt;
                    let c11 = f32 x;
                    let c21 = f32 y;
                    Some (if c11 \<noteq> - 1 then track_extrema (fst se) ipt c11 c21 else fst se)
                  }
                else Some (fst se));
           e \<leftarrow> (if wave_distance < roiw_ave \<and> slice = end_region then
                  do {
                    x \<leftarrow> rd coord1 ipt;
                    y \<leftarrow> rd coord2 ipt;
                    let c12 = f32 x;
                    let c22 = f32 y;
                    Some (if c12 \<noteq> - 1 then track_extrema (snd se) ipt c12 c22 else snd se)
                  }
                else Some (snd se));
           Some (s, e)
         }
       else Some se
     }"

text \<open>The whole scan: the state after the loop over \<open>ipt = 0, ..., npt - 1\<close>.\<close>

definition miri_scan ::
  "(real \<Rightarrow> real) \<Rightarrow> int \<Rightarrow> int \<Rightarrow> int \<Rightarrow> real \<Rightarrow> real list \<Rightarrow>
   real list \<Rightarrow> real list \<Rightarrow> real list \<Rightarrow> real list \<Rightarrow>
   int \<Rightarrow> (slice_extrema \<times> slice_extrema) option" where
  "miri_scan f32 w start_region end_region roiw_ave zc coord1 coord2 wave sliceno npt =
     for_loop [0..npt - 1]
       (miri_point f32 w start_region end_region roiw_ave zc coord1 coord2 wave sliceno)
       (extrema_init, extrema_init)"

type_synonym corner = "real \<times> real"

type_synonym corners = "corner \<times> corner \<times> corner \<times> corner"

text \<open>The point \<open>(coord1[i], coord2[i])\<close>, read as the source does for a corner.\<close>

definition point_at :: "real list \<Rightarrow> real list \<Rightarrow> int \<Rightarrow> corner option" where
  "point_at coord1 coord2 i = do { x \<leftarrow> rd coord1 i; y \<leftarrow> rd coord2 i; Some (x, y) }"

text \<open>
  The routine. The four corner arrays come in as \<open>cs\<close> and go out with the status: a
  return with status 1 hands them back as they came.
\<close>

definition corner_wave_plane_miri ::
  "(real \<Rightarrow> real) \<Rightarrow> int \<Rightarrow> int \<Rightarrow> int \<Rightarrow> real \<Rightarrow> real list \<Rightarrow>
   real list \<Rightarrow> real list \<Rightarrow> real list \<Rightarrow> real list \<Rightarrow>
   int \<Rightarrow> int \<Rightarrow> corners \<Rightarrow> (int \<times> corners) option" where
  "corner_wave_plane_miri f32 w start_region end_region roiw_ave zc coord1 coord2 wave sliceno
       ncube npt cs =
     do {
       (s, e) \<leftarrow> miri_scan f32 w start_region end_region roiw_ave zc coord1 coord2 wave
                  sliceno npt;
       if ic1_min s = - 1 \<or> ic1_max s = - 1 \<or> ic1_min e = - 1 \<or> ic1_max e = - 1 then
         Some (1, cs)
       else
         do {
           let length_c1_start = f32 (c1_max s - c1_min s);
           let length_c2_start = f32 (c2_max s - c2_min s);
           let c1_use = (if length_c1_start < length_c2_start then 0 else (1::int));
           if c1_use = 0 then
             do {
               corner1 \<leftarrow> point_at coord1 coord2 (ic2_min s);
               corner2 \<leftarrow> point_at coord1 coord2 (ic2_max s);
               corner3 \<leftarrow> point_at coord1 coord2 (ic2_max e);
               corner4 \<leftarrow> point_at coord1 coord2 (ic2_min e);
               Some (0, (corner1, corner2, corner3, corner4))
             }
           else
             do {
               corner1 \<leftarrow> point_at coord1 coord2 (ic1_min s);
               corner2 \<leftarrow> point_at coord1 coord2 (ic1_max s);
               corner3 \<leftarrow> point_at coord1 coord2 (ic1_max e);
               corner4 \<leftarrow> point_at coord1 coord2 (ic1_min e);
               Some (0, (corner1, corner2, corner3, corner4))
             }
         }
     }"


subsection \<open>\<open>overlap_fov_with_spaxels\<close>: the polygon coverage rasterizer\<close>

text \<open>
  \<open>sh_find_overlap\<close> is defined in another file of the repository (\<open>cube_utils.c\<close>); the
  routine only calls it. It is the parameter \<open>sh_find_overlap\<close> here, with the arguments
  of the C declaration.
\<close>

type_synonym overlap_fn = "real \<Rightarrow> real \<Rightarrow> real \<Rightarrow> real \<Rightarrow> real list \<Rightarrow> real list \<Rightarrow> real"

record fov_bbox =
  ximin :: real
  ximax :: real
  etamin :: real
  etamax :: real

text \<open>One iteration of the loop over the corners 1, 2, 3 (lines 315 to 318).\<close>

definition bbox_corner :: "real list \<Rightarrow> real list \<Rightarrow> int \<Rightarrow> fov_bbox \<Rightarrow> fov_bbox option" where
  "bbox_corner xi_corner eta_corner i b =
     do {
       xi \<leftarrow> rd xi_corner i;
       eta \<leftarrow> rd eta_corner i;
       let b = (if xi < ximin b then b\<lparr>ximin := xi\<rparr> else b);
       let b = (if xi > ximax b then b\<lparr>ximax := xi\<rparr> else b);
       let b = (if eta < etamin b then b\<lparr>etamin := eta\<rparr> else b);
       let b = (if eta < etamax b then b\<lparr>etamax := eta\<rparr> else b);
       Some b
     }"

text \<open>Lines 310 to 319: the box the source computes from the four corners.\<close>

definition fov_bounds :: "real list \<Rightarrow> real list \<Rightarrow> fov_bbox option" where
  "fov_bounds xi_corner eta_corner =
     do {
       xi0 \<leftarrow> rd xi_corner 0;
       eta0 \<leftarrow> rd eta_corner 0;
       for_loop [1..3] (bbox_corner xi_corner eta_corner)
         \<lparr>ximin = xi0, ximax = xi0, etamin = eta0, etamax = eta0\<rparr>
     }"

text \<open>
  The body of the loop over \<open>iy\<close> (lines 330 to 348) for the column \<open>ix\<close>: the test on
  \<open>y1\<close> and \<open>y2\<close>, the call of \<open>sh_find_overlap\<close> and the two thresholds.
\<close>

definition fov_cell ::
  "overlap_fn \<Rightarrow> int \<Rightarrow> int \<Rightarrow> real \<Rightarrow> real \<Rightarrow> int \<Rightarrow> real list \<Rightarrow> real list \<Rightarrow>
   real list \<Rightarrow> real list \<Rightarrow> fov_bbox \<Rightarrow> int \<Rightarrow> int \<Rightarrow> int list \<Rightarrow> int list option" where
  "fov_cell sh_find_overlap overlap_partial overlap_full cdelt1 cdelt2 naxis1 xcenters ycenters
       xi_corner eta_corner b ix iy wave_slice_dq =
     do {
       yx \<leftarrow> rd ycenters ix;
       let y1 = (yx - cdelt2) / 2;
       let y2 = (yx + cdelt2) / 2;
       if y1 > etamin b \<and> y2 < etamax b then
         do {
           let ixy = iy * naxis1 + ix;
           xc \<leftarrow> rd xcenters ix;
           yc \<leftarrow> rd ycenters iy;
           let area_overlap = sh_find_overlap xc yc cdelt1 cdelt2 xi_corner eta_corner;
           let area_box = cdelt1 * cdelt2;
           if area_box = 0 then None
           else
             do {
               let overlap_coverage = area_overlap / area_box;
               if overlap_coverage > 5 / 100 then
                 (if overlap_coverage > 95 / 100
                  then wr wave_slice_dq ixy overlap_full
                  else wr wave_slice_dq ixy overlap_partial)
               else Some wave_slice_dq
             }
         }
       else Some wave_slice_dq
     }"

text \<open>The body of the loop over \<open>ix\<close> (lines 325 to 350).\<close>

definition fov_column ::
  "overlap_fn \<Rightarrow> int \<Rightarrow> int \<Rightarrow> real \<Rightarrow> real \<Rightarrow> int \<Rightarrow> int \<Rightarrow> real list \<Rightarrow> real list \<Rightarrow>
   real list \<Rightarrow> real list \<Rightarrow> fov_bbox \<Rightarrow> int \<Rightarrow> int list \<Rightarrow> int list option" where
  "fov_column sh_find_overlap overlap_partial overlap_full cdelt1 cdelt2 naxis1 naxis2
       xcenters ycenters xi_corner eta_corner b ix wave_slice_dq =
     do {
       xc \<leftarrow> rd xcenters ix;
       let x1 = (xc - cdelt1) / 2;
       let x2 = (xc + cdelt1) / 2;
       if x1 > ximin b \<and> x2 < ximax b then
         for_loop [0..naxis2 - 1]
           (fov_cell sh_find_overlap overlap_partial overlap_full cdelt1 cdelt2 naxis1
              xcenters ycenters xi_corner eta_corner b ix)
           wave_slice_dq
       else Some wave_slice_dq
     }"

definition overlap_fov_with_spaxels ::
  "overlap_fn \<Rightarrow> int \<Rightarrow> int \<Rightarrow> real \<Rightarrow> real \<Rightarrow> int \<Rightarrow> int \<Rightarrow> real list \<Rightarrow> real list \<Rightarrow>
   real list \<Rightarrow> real list \<Rightarrow> int list \<Rightarrow> int list option" where
  "overlap_fov_with_spaxels sh_find_overlap overlap_partial overlap_full cdelt1 cdelt2
       naxis1 naxis2 xcenters ycenters xi_corner eta_corner wave_slice_dq =
     do {
       b \<leftarrow> fov_bounds xi_corner eta_corner;
       for_loop [0..naxis1 - 1]
         (fov_column sh_find_overlap overlap_partial overlap_full cdelt1 cdelt2 naxis1 naxis2
            xcenters ycenters xi_corner eta_corner b)
         wave_slice_dq
     }"


subsection \<open>\<open>match_wave_plane_nirspec\<close>: the slice extent finder\<close>

text \<open>
  The five output arrays have 30 entries each (the caller declares them so). The routine
  overwrites all of them before it reads any, so the model builds them afresh.
\<close>

record slice_table =
  tab_c1_min :: "real list"
  tab_c2_min :: "real list"
  tab_c1_max :: "real list"
  tab_c2_max :: "real list"

definition minvalue :: real where
  "minvalue = 10000"

definition maxvalue :: real where
  "maxvalue = - 10000"

text \<open>Lines 415 to 423, without \<open>match_slice\<close>, which is set after the scan.\<close>

definition table_init :: slice_table where
  "table_init =
     \<lparr>tab_c1_min = replicate 30 minvalue, tab_c2_min = replicate 30 minvalue,
      tab_c1_max = replicate 30 maxvalue, tab_c2_max = replicate 30 maxvalue\<rparr>"

text \<open>The four tests of lines 437 to 451 on the entries of slice \<open>k\<close>.\<close>

definition track_slice :: "slice_table \<Rightarrow> nat \<Rightarrow> real \<Rightarrow> real \<Rightarrow> slice_table" where
  "track_slice t k c1 c2 =
     (let t = (if c1 < tab_c1_min t ! k then t\<lparr>tab_c1_min := (tab_c1_min t)[k := c1]\<rparr> else t);
          t = (if c2 < tab_c2_min t ! k then t\<lparr>tab_c2_min := (tab_c2_min t)[k := c2]\<rparr> else t);
          t = (if c1 > tab_c1_max t ! k then t\<lparr>tab_c1_max := (tab_c1_max t)[k := c1]\<rparr> else t);
          t = (if c2 > tab_c2_max t ! k then t\<lparr>tab_c2_max := (tab_c2_max t)[k := c2]\<rparr> else t)
      in t)"

text \<open>
  One iteration of the loop over the point cloud (lines 426 to 454); the state is the
  table and the counter \<open>ii\<close>. An \<open>islice\<close> outside \<open>0, ..., 29\<close> indexes outside the
  arrays.
\<close>

definition nirspec_point ::
  "real \<Rightarrow> real \<Rightarrow> real list \<Rightarrow> real list \<Rightarrow> real list \<Rightarrow> real list \<Rightarrow>
   int \<Rightarrow> slice_table \<times> int \<Rightarrow> (slice_table \<times> int) option" where
  "nirspec_point wave_plane roiw_ave coord1 coord2 wave sliceno ipt tii =
     do {
       slice \<leftarrow> rd sliceno ipt;
       wv \<leftarrow> rd wave ipt;
       let wave_distance = \<bar>wave_plane - wv\<bar>;
       c1 \<leftarrow> rd coord1 ipt;
       c2 \<leftarrow> rd coord2 ipt;
       if wave_distance < roiw_ave then
         (let islice = c_int_of_double slice - 1
          in if 0 \<le> islice \<and> islice < 30
             then Some (track_slice (fst tii) (nat islice) c1 c2, snd tii + 1)
             else None)
       else Some tii
     }"

text \<open>Lines 457 to 467: the entry \<open>i\<close> of \<open>match_slice\<close> after the routine.\<close>

definition slice_matched :: "slice_table \<Rightarrow> int \<Rightarrow> nat \<Rightarrow> int" where
  "slice_matched t ii i =
     (if ii > 0 \<and>
         tab_c1_min t ! i \<noteq> minvalue \<and> tab_c2_min t ! i \<noteq> minvalue \<and>
         tab_c1_max t ! i \<noteq> maxvalue \<and> tab_c2_max t ! i \<noteq> maxvalue \<and>
         tab_c1_min t ! i \<noteq> tab_c1_max t ! i \<and> tab_c2_min t ! i \<noteq> tab_c2_max t ! i
      then 1 else 0)"

text \<open>The routine: the returned count \<open>ii\<close>, the four extent arrays and \<open>match_slice\<close>.\<close>

definition match_wave_plane_nirspec ::
  "real \<Rightarrow> real \<Rightarrow> real list \<Rightarrow> real list \<Rightarrow> real list \<Rightarrow> real list \<Rightarrow> int \<Rightarrow>
   (int \<times> slice_table \<times> int list) option" where
  "match_wave_plane_nirspec wave_plane roiw_ave coord1 coord2 wave sliceno npt =
     do {
       (t, ii) \<leftarrow> for_loop [0..npt - 1]
                    (nirspec_point wave_plane roiw_ave coord1 coord2 wave sliceno)
                    (table_init, 0);
       Some (ii, t, map (slice_matched t ii) [0..<30])
     }"

subsection \<open>\<open>dq_miri\<close>: the orchestrator of the polygon pipeline\<close>

text \<open>
  The body of the loop over the wavelength planes (lines 670 to 706). The loop carries
  the output array \<open>idqv\<close>, the scratch buffer and the four corner arrays.
\<close>

definition miri_plane ::
  "(real \<Rightarrow> real) \<Rightarrow> overlap_fn \<Rightarrow> int \<Rightarrow> int \<Rightarrow> int \<Rightarrow> int \<Rightarrow> int \<Rightarrow> int \<Rightarrow>
   real \<Rightarrow> real \<Rightarrow> real \<Rightarrow> real list \<Rightarrow> real list \<Rightarrow> real list \<Rightarrow>
   real list \<Rightarrow> real list \<Rightarrow> real list \<Rightarrow> real list \<Rightarrow> int \<Rightarrow> int \<Rightarrow>
   int \<Rightarrow> int list \<times> int list \<times> corners \<Rightarrow> (int list \<times> int list \<times> corners) option" where
  "miri_plane f32 sh_find_overlap start_region end_region overlap_partial overlap_full nx ny
       cdelt1 cdelt2 roiw_ave xc yc zc coord1 coord2 wave sliceno ncube npt w st =
     (case st of (idqv, wave_slice_dq, cs) \<Rightarrow>
        do {
          let nxy = nx * ny;
          wave_slice_dq \<leftarrow> for_loop [0..nxy - 1] (\<lambda>i dq. wr dq i 0) wave_slice_dq;
          (status_wave, cs) \<leftarrow>
             corner_wave_plane_miri f32 w start_region end_region roiw_ave zc
               coord1 coord2 wave sliceno ncube npt cs;
          wave_slice_dq \<leftarrow>
            (if status_wave = 0 then
               (case cs of (corner1, corner2, corner3, corner4) \<Rightarrow>
                  overlap_fov_with_spaxels sh_find_overlap overlap_partial overlap_full
                    cdelt1 cdelt2 nx ny xc yc
                    [fst corner1, fst corner2, fst corner3, fst corner4]
                    [snd corner1, snd corner2, snd corner3, snd corner4]
                    wave_slice_dq)
             else Some wave_slice_dq);
          let istart = nxy * w;
          let iend = istart + nxy;
          idqv \<leftarrow> for_loop [istart..iend - 1]
                    (\<lambda>inx dq.
                       if status_wave = 0
                       then do { v \<leftarrow> rd wave_slice_dq (inx - istart); wr dq inx v }
                       else wr dq inx 0)
                    idqv;
          Some (idqv, wave_slice_dq, cs)
        })"

text \<open>
  The routine: the returned status, and the array stored in \<open>*spaxel_dq\<close> when there is
  one. \<open>alloc_ok k\<close> tells whether the allocator serves the \<open>k\<close>-th request of the call.
  The corner arrays are uninitialised locals that are written before they are read; they
  start as zeros here.
\<close>

definition dq_miri ::
  "(real \<Rightarrow> real) \<Rightarrow> overlap_fn \<Rightarrow> (nat \<Rightarrow> bool) \<Rightarrow> int \<Rightarrow> int \<Rightarrow> int \<Rightarrow> int \<Rightarrow>
   int \<Rightarrow> int \<Rightarrow> int \<Rightarrow> real \<Rightarrow> real \<Rightarrow> real \<Rightarrow> real list \<Rightarrow> real list \<Rightarrow> real list \<Rightarrow>
   real list \<Rightarrow> real list \<Rightarrow> real list \<Rightarrow> real list \<Rightarrow> int \<Rightarrow> int \<Rightarrow>
   (int \<times> int list option) option" where
  "dq_miri f32 sh_find_overlap alloc_ok start_region end_region overlap_partial overlap_full
       nx ny nz cdelt1 cdelt2 roiw_ave xc yc zc coord1 coord2 wave sliceno ncube npt =
     (case mem_alloc_dq (alloc_ok 0) ncube of
        (st1, p1) \<Rightarrow>
          if st1 \<noteq> 0 then Some (1, None)
          else
            (let nxy = nx * ny
             in case mem_alloc_dq (alloc_ok 1) nxy of
                  (st2, p2) \<Rightarrow>
                    if st2 \<noteq> 0 then Some (1, None)
                    else
                      do {
                        idqv \<leftarrow> p1;
                        wave_slice_dq \<leftarrow> p2;
                        (idqv, wave_slice_dq, cs) \<leftarrow>
                          for_loop [0..nz - 1]
                            (miri_plane f32 sh_find_overlap start_region end_region
                               overlap_partial overlap_full nx ny cdelt1 cdelt2 roiw_ave
                               xc yc zc coord1 coord2 wave sliceno ncube npt)
                            (idqv, wave_slice_dq, ((0, 0), (0, 0), (0, 0), (0, 0)));
                        Some (0, Some idqv)
                      }))"

subsection \<open>\<open>dq_nirspec\<close>: the orchestrator of the line pipeline\<close>

text \<open>
  The body of the loop over the 30 slices (lines 805 to 826); it carries the scratch
  buffer and \<open>slice_found\<close>.
\<close>

definition nirspec_slice ::
  "(real \<Rightarrow> real) \<Rightarrow> int \<Rightarrow> int \<Rightarrow> int \<Rightarrow> real \<Rightarrow> real \<Rightarrow> real list \<Rightarrow> real list \<Rightarrow>
   slice_table \<Rightarrow> int list \<Rightarrow> int \<Rightarrow> int list \<times> int \<Rightarrow> (int list \<times> int) option" where
  "nirspec_slice f32 overlap_partial nx ny cdelt1 cdelt2 xc yc t match_slice islice st =
     (case st of (wave_slice_dq, slice_found) \<Rightarrow>
        do {
          c1mn \<leftarrow> rd (tab_c1_min t) islice;
          c1mx \<leftarrow> rd (tab_c1_max t) islice;
          c2mn \<leftarrow> rd (tab_c2_min t) islice;
          c2mx \<leftarrow> rd (tab_c2_max t) islice;
          let slice_c1_min = f32 c1mn;
          let slice_c1_max = f32 c1mx;
          let slice_c2_min = f32 c2mn;
          let slice_c2_max = f32 c2mx;
          m \<leftarrow> rd match_slice islice;
          if m = 1 then
            do {
              x0 \<leftarrow> rd xc 0;
              y0 \<leftarrow> rd yc 0;
              let xstart = f32 x0;
              let ystart = f32 y0;
              dq \<leftarrow> overlap_slice_with_spaxels overlap_partial cdelt1 cdelt2 nx ny
                      xstart ystart slice_c1_min slice_c2_min slice_c1_max slice_c2_max
                      wave_slice_dq;
              Some (dq, 1)
            }
          else Some (wave_slice_dq, slice_found)
        })"

text \<open>
  Lines 830 to 838: the scratch buffer goes into the output array at the offset of the
  plane when a slice was rasterized.
\<close>

definition nirspec_copy ::
  "int \<Rightarrow> int \<Rightarrow> int \<Rightarrow> int \<Rightarrow> int \<Rightarrow> int list \<Rightarrow> int list \<Rightarrow> int list option" where
  "nirspec_copy nx ny w imatch slice_found wave_slice_dq idqv =
     (if imatch > 0 \<and> slice_found = 1 then
        (let nxy = nx * ny;
             istart = nxy * w;
             iend = istart + nxy
         in for_loop [istart..iend - 1]
              (\<lambda>inx dq. do { v \<leftarrow> rd wave_slice_dq (inx - istart); wr dq inx v })
              idqv)
      else Some idqv)"

text \<open>
  The body of the loop over the wavelength planes (lines 777 to 839). \<open>ok\<close> tells
  whether the allocator serves this plane's request for a scratch buffer. The result is
  \<open>Inl 1\<close> for the \<open>return 1\<close> of line 795 and \<open>Inr idqv\<close> when the iteration runs to
  its end.
\<close>

definition nirspec_plane ::
  "(real \<Rightarrow> real) \<Rightarrow> bool \<Rightarrow> int \<Rightarrow> int \<Rightarrow> int \<Rightarrow> real \<Rightarrow> real \<Rightarrow> real \<Rightarrow>
   real list \<Rightarrow> real list \<Rightarrow> real list \<Rightarrow> real list \<Rightarrow> real list \<Rightarrow> real list \<Rightarrow> real list \<Rightarrow>
   int \<Rightarrow> int \<Rightarrow> int list \<Rightarrow> (int + int list) option" where
  "nirspec_plane f32 ok overlap_partial nx ny cdelt1 cdelt2 roiw_ave xc yc zc
       coord1 coord2 wave sliceno npt w idqv =
     do {
       let nxy = nx * ny;
       zw \<leftarrow> rd zc w;
       (imatch, t, match_slice) \<leftarrow>
          match_wave_plane_nirspec zw roiw_ave coord1 coord2 wave sliceno npt;
       (case mem_alloc_dq ok nxy of
          (st, p) \<Rightarrow>
            if st \<noteq> 0 then Some (Inl 1)
            else
              do {
                wave_slice_dq \<leftarrow> p;
                wave_slice_dq \<leftarrow> for_loop [0..nxy - 1] (\<lambda>j dq. wr dq j 0) wave_slice_dq;
                (wave_slice_dq, slice_found) \<leftarrow>
                  (if imatch > 0 then
                     for_loop [0..29]
                       (nirspec_slice f32 overlap_partial nx ny cdelt1 cdelt2 xc yc t
                          match_slice)
                       (wave_slice_dq, 0)
                   else Some (wave_slice_dq, 0));
                idqv \<leftarrow> nirspec_copy nx ny w imatch slice_found wave_slice_dq idqv;
                Some (Inr idqv)
              })
     }"

text \<open>
  The loop over the planes \<open>w = 0, ..., nz - 1\<close>, written as a recursion on the planes
  still to do, since an iteration may leave the routine. Plane \<open>w\<close> makes the request
  number \<open>w + 1\<close> of the call.
\<close>

fun nirspec_planes ::
  "(real \<Rightarrow> real) \<Rightarrow> (nat \<Rightarrow> bool) \<Rightarrow> int \<Rightarrow> int \<Rightarrow> int \<Rightarrow> real \<Rightarrow> real \<Rightarrow> real \<Rightarrow>
   real list \<Rightarrow> real list \<Rightarrow> real list \<Rightarrow> real list \<Rightarrow> real list \<Rightarrow> real list \<Rightarrow> real list \<Rightarrow>
   int \<Rightarrow> int list \<Rightarrow> int list \<Rightarrow> (int + int list) option" where
  "nirspec_planes f32 alloc_ok overlap_partial nx ny cdelt1 cdelt2 roiw_ave xc yc zc
       coord1 coord2 wave sliceno npt [] idqv = Some (Inr idqv)"
| "nirspec_planes f32 alloc_ok overlap_partial nx ny cdelt1 cdelt2 roiw_ave xc yc zc
       coord1 coord2 wave sliceno npt (w # ws) idqv =
     (case nirspec_plane f32 (alloc_ok (nat w + 1)) overlap_partial nx ny cdelt1 cdelt2
             roiw_ave xc yc zc coord1 coord2 wave sliceno npt w idqv of
        None \<Rightarrow> None
      | Some (Inl st) \<Rightarrow> Some (Inl st)
      | Some (Inr idqv') \<Rightarrow>
          nirspec_planes f32 alloc_ok overlap_partial nx ny cdelt1 cdelt2 roiw_ave xc yc zc
            coord1 coord2 wave sliceno npt ws idqv')"

text \<open>
  The routine. Line 768 calls \<open>calloc\<close> itself and does not test the pointer; the loop of
  lines 770 to 772 then stores through it. The null pointer is an array without
  elements here: every store through it is outside the array, hence \<open>None\<close>.
\<close>

definition dq_nirspec ::
  "(real \<Rightarrow> real) \<Rightarrow> (nat \<Rightarrow> bool) \<Rightarrow> int \<Rightarrow> int \<Rightarrow> int \<Rightarrow> int \<Rightarrow>
   real \<Rightarrow> real \<Rightarrow> real \<Rightarrow> real list \<Rightarrow> real list \<Rightarrow> real list \<Rightarrow>
   real list \<Rightarrow> real list \<Rightarrow> real list \<Rightarrow> real list \<Rightarrow> int \<Rightarrow> int \<Rightarrow>
   (int \<times> int list option) option" where
  "dq_nirspec f32 alloc_ok overlap_partial nx ny nz cdelt1 cdelt2 roiw_ave xc yc zc
       coord1 coord2 wave sliceno ncube npt =
     do {
       let idqv = (case calloc_int (alloc_ok 0) ncube of None \<Rightarrow> [] | Some a \<Rightarrow> a);
       idqv \<leftarrow> for_loop [0..ncube - 1] (\<lambda>i dq. wr dq i 0) idqv;
       r \<leftarrow> nirspec_planes f32 alloc_ok overlap_partial nx ny cdelt1 cdelt2 roiw_ave
              xc yc zc coord1 coord2 wave sliceno npt [0..nz - 1] idqv;
       (case r of
          Inl st \<Rightarrow> Some (st, None)
        | Inr idqv \<Rightarrow> Some (0, Some idqv))
     }"

section \<open>Vocabulary of the statements\<close>

subsection \<open>Running extrema\<close>

text \<open>
  \<open>tracks_min init Q c A m\<close>: after the points of \<open>A\<close>, the running minimum \<open>m\<close> that
  started at \<open>init\<close> is \<open>init\<close> or the value \<open>c p\<close> of a point with \<open>Q p\<close>, and lies
  below \<open>init\<close> and below the value of every such point. \<open>tracks_max\<close> is its mirror
  image.
\<close>

definition tracks_min :: "real \<Rightarrow> (int \<Rightarrow> bool) \<Rightarrow> (int \<Rightarrow> real) \<Rightarrow> int set \<Rightarrow> real \<Rightarrow> bool" where
  "tracks_min init Q c A m \<longleftrightarrow>
     (m = init \<or> (\<exists>p\<in>A. Q p \<and> m = c p)) \<and> m \<le> init \<and> (\<forall>p\<in>A. Q p \<longrightarrow> m \<le> c p)"

definition tracks_max :: "real \<Rightarrow> (int \<Rightarrow> bool) \<Rightarrow> (int \<Rightarrow> real) \<Rightarrow> int set \<Rightarrow> real \<Rightarrow> bool" where
  "tracks_max init Q c A m \<longleftrightarrow>
     (m = init \<or> (\<exists>p\<in>A. Q p \<and> m = c p)) \<and> init \<le> m \<and> (\<forall>p\<in>A. Q p \<longrightarrow> c p \<le> m)"

text \<open>
  The same with the index of the point that set the extremum, as the boundary finder
  keeps it: the index is still \<open>- 1\<close> exactly when the value is still the initial one.
\<close>

definition min_at :: "(int \<Rightarrow> bool) \<Rightarrow> (int \<Rightarrow> real) \<Rightarrow> int set \<Rightarrow> real \<Rightarrow> int \<Rightarrow> bool" where
  "min_at Q c A m i \<longleftrightarrow>
     (if i = - 1 then m = 10000 \<and> (\<forall>p\<in>A. Q p \<longrightarrow> 10000 \<le> c p)
      else i \<in> A \<and> Q i \<and> m = c i \<and> m < 10000 \<and> (\<forall>p\<in>A. Q p \<longrightarrow> m \<le> c p))"

definition max_at :: "(int \<Rightarrow> bool) \<Rightarrow> (int \<Rightarrow> real) \<Rightarrow> int set \<Rightarrow> real \<Rightarrow> int \<Rightarrow> bool" where
  "max_at Q c A m i \<longleftrightarrow>
     (if i = - 1 then m = - 10000 \<and> (\<forall>p\<in>A. Q p \<longrightarrow> c p \<le> - 10000)
      else i \<in> A \<and> Q i \<and> m = c i \<and> - 10000 < m \<and> (\<forall>p\<in>A. Q p \<longrightarrow> c p \<le> m))"

subsection \<open>Points of the slice extent finder\<close>

text \<open>
  Point \<open>ipt\<close> lies within the region of interest of the plane and belongs to the slice
  with number \<open>i + 1\<close>, the one kept at index \<open>i\<close> of the tables.
\<close>

definition on_slice :: "real \<Rightarrow> real \<Rightarrow> real list \<Rightarrow> real list \<Rightarrow> nat \<Rightarrow> int \<Rightarrow> bool" where
  "on_slice wave_plane roiw_ave wave sliceno i ipt \<longleftrightarrow>
     \<bar>wave_plane - wave ! nat ipt\<bar> < roiw_ave \<and> c_int_of_double (sliceno ! nat ipt) - 1 = int i"

text \<open>The state of the scan after the points of \<open>A\<close>.\<close>

definition table_inv ::
  "real \<Rightarrow> real \<Rightarrow> real list \<Rightarrow> real list \<Rightarrow> real list \<Rightarrow> real list \<Rightarrow>
   int set \<Rightarrow> slice_table \<times> int \<Rightarrow> bool" where
  "table_inv wave_plane roiw_ave coord1 coord2 wave sliceno A tii \<longleftrightarrow>
     (case tii of (t, ii) \<Rightarrow>
       length (tab_c1_min t) = 30 \<and> length (tab_c2_min t) = 30 \<and>
       length (tab_c1_max t) = 30 \<and> length (tab_c2_max t) = 30 \<and>
       0 \<le> ii \<and> (ii = 0 \<longleftrightarrow> (\<forall>p\<in>A. \<not> \<bar>wave_plane - wave ! nat p\<bar> < roiw_ave)) \<and>
       (\<forall>i<30.
          tracks_min minvalue (on_slice wave_plane roiw_ave wave sliceno i)
            (\<lambda>p. coord1 ! nat p) A (tab_c1_min t ! i) \<and>
          tracks_min minvalue (on_slice wave_plane roiw_ave wave sliceno i)
            (\<lambda>p. coord2 ! nat p) A (tab_c2_min t ! i) \<and>
          tracks_max maxvalue (on_slice wave_plane roiw_ave wave sliceno i)
            (\<lambda>p. coord1 ! nat p) A (tab_c1_max t ! i) \<and>
          tracks_max maxvalue (on_slice wave_plane roiw_ave wave sliceno i)
            (\<lambda>p. coord2 ! nat p) A (tab_c2_max t ! i)))"

subsection \<open>Points of the boundary finder\<close>

text \<open>
  Point \<open>ipt\<close> qualifies for the slice \<open>region\<close> on plane \<open>w\<close>: it belongs to the slice
  and its wavelength lies within the region of interest.
\<close>

definition miri_qualifies ::
  "int \<Rightarrow> int \<Rightarrow> real \<Rightarrow> real list \<Rightarrow> real list \<Rightarrow> real list \<Rightarrow> int \<Rightarrow> bool" where
  "miri_qualifies w region roiw_ave zc wave sliceno ipt \<longleftrightarrow>
     c_int_of_double (sliceno ! nat ipt) = region \<and> \<bar>zc ! nat w - wave ! nat ipt\<bar> < roiw_ave"

text \<open>
  The points whose coordinates the finder compares with its extrema: the qualifying
  points that pass the test \<open>c11 != -1\<close> (\<open>c12 != -1\<close>) on the narrowed first coordinate.
\<close>

definition miri_tracked ::
  "(real \<Rightarrow> real) \<Rightarrow> int \<Rightarrow> int \<Rightarrow> real \<Rightarrow> real list \<Rightarrow> real list \<Rightarrow> real list \<Rightarrow> real list \<Rightarrow>
   int \<Rightarrow> bool" where
  "miri_tracked f32 w region roiw_ave zc coord1 wave sliceno ipt \<longleftrightarrow>
     miri_qualifies w region roiw_ave zc wave sliceno ipt \<and> f32 (coord1 ! nat ipt) \<noteq> - 1"

definition extrema_inv ::
  "(int \<Rightarrow> bool) \<Rightarrow> (int \<Rightarrow> real) \<Rightarrow> (int \<Rightarrow> real) \<Rightarrow> int set \<Rightarrow> slice_extrema \<Rightarrow> bool" where
  "extrema_inv Q c1 c2 A e \<longleftrightarrow>
     min_at Q c1 A (c1_min e) (ic1_min e) \<and> max_at Q c1 A (c1_max e) (ic1_max e) \<and>
     min_at Q c2 A (c2_min e) (ic2_min e) \<and> max_at Q c2 A (c2_max e) (ic2_max e)"

definition miri_inv ::
  "(real \<Rightarrow> real) \<Rightarrow> int \<Rightarrow> int \<Rightarrow> int \<Rightarrow> real \<Rightarrow> real list \<Rightarrow> real list \<Rightarrow> real list \<Rightarrow>
   real list \<Rightarrow> real list \<Rightarrow> int set \<Rightarrow> slice_extrema \<times> slice_extrema \<Rightarrow> bool" where
  "miri_inv f32 w start_region end_region roiw_ave zc coord1 coord2 wave sliceno A se \<longleftrightarrow>
     extrema_inv (miri_tracked f32 w start_region roiw_ave zc coord1 wave sliceno)
       (\<lambda>p. f32 (coord1 ! nat p)) (\<lambda>p. f32 (coord2 ! nat p)) A (fst se) \<and>
     extrema_inv (miri_tracked f32 w end_region roiw_ave zc coord1 wave sliceno)
       (\<lambda>p. f32 (coord1 ! nat p)) (\<lambda>p. f32 (coord2 ! nat p)) A (snd se)"






subsection \<open>Cells of the polygon coverage rasterizer\<close>

text \<open>
  The cell \<open>(ix, iy)\<close> passes the two tests of the source against the box \<open>b\<close> (lines 327
  and 332, with the bounds as lines 325, 326, 330 and 331 compute them); its coverage
  fraction is the area that \<open>sh_find_overlap\<close> returns for it, divided by the area of a
  cell.
\<close>

definition fov_considered ::
  "real \<Rightarrow> real \<Rightarrow> real list \<Rightarrow> real list \<Rightarrow> fov_bbox \<Rightarrow> int \<Rightarrow> int \<Rightarrow> bool" where
  "fov_considered cdelt1 cdelt2 xcenters ycenters b ix iy \<longleftrightarrow>
     (xcenters ! nat ix - cdelt1) / 2 > ximin b \<and> (xcenters ! nat ix + cdelt1) / 2 < ximax b \<and>
     (ycenters ! nat ix - cdelt2) / 2 > etamin b \<and> (ycenters ! nat ix + cdelt2) / 2 < etamax b"

definition coverage ::
  "overlap_fn \<Rightarrow> real \<Rightarrow> real \<Rightarrow> real list \<Rightarrow> real list \<Rightarrow> real list \<Rightarrow> real list \<Rightarrow>
   int \<Rightarrow> int \<Rightarrow> real" where
  "coverage sh_find_overlap cdelt1 cdelt2 xcenters ycenters xi_corner eta_corner ix iy =
     sh_find_overlap (xcenters ! nat ix) (ycenters ! nat iy) cdelt1 cdelt2 xi_corner eta_corner
       / (cdelt1 * cdelt2)"

text \<open>
  The thresholds as the specification words them, relating the entry of a cell before
  and after the rasterizer to the coverage fraction of the cell.
\<close>

definition thresholded :: "int \<Rightarrow> int \<Rightarrow> real \<Rightarrow> int \<Rightarrow> int \<Rightarrow> bool" where
  "thresholded overlap_partial overlap_full fraction before after \<longleftrightarrow>
     (fraction \<le> 5 / 100 \<longrightarrow> after = before) \<and>
     (5 / 100 < fraction \<and> fraction \<le> 95 / 100 \<longrightarrow> after = overlap_partial) \<and>
     (95 / 100 < fraction \<longrightarrow> after = overlap_full)"

section \<open>Properties\<close>

subsection \<open>Counted loops\<close>

text \<open>
  An invariant indexed by the set of indices already visited: if it holds before the loop
  for \<open>A\<close> and every iteration that returns extends it by the index of the iteration, it
  holds after the loop for \<open>A\<close> and all indices of the loop.
\<close>

lemma for_loop_invariant:
  assumes "for_loop ks body s = Some s'"
    and "I A s"
    and "\<And>k t t' B. k \<in> set ks \<Longrightarrow> I B t \<Longrightarrow> body k t = Some t' \<Longrightarrow> I (insert k B) t'"
  shows "I (A \<union> set ks) s'"
  using assms
proof (induction ks arbitrary: s A)
  case Nil
  then show ?case by simp
next
  case (Cons k ks)
  from Cons.prems(1) obtain t where t: "body k s = Some t" and rest: "for_loop ks body t = Some s'"
    by (auto split: option.splits)
  have kt: "I (insert k A) t"
    using Cons.prems(3)[OF _ Cons.prems(2) t] by simp
  have "I (insert k A \<union> set ks) s'"
  proof (rule Cons.IH[OF rest kt])
    show "\<And>j u u' B. j \<in> set ks \<Longrightarrow> I B u \<Longrightarrow> body j u = Some u' \<Longrightarrow> I (insert j B) u'"
      using Cons.prems(3) by simp
  qed
  then show ?case by simp
qed

lemma for_loop_preserve:
  assumes "for_loop ks body s = Some s'"
    and "Q s"
    and "\<And>j t t'. j \<in> set ks \<Longrightarrow> body j t = Some t' \<Longrightarrow> Q t \<Longrightarrow> Q t'"
  shows "Q s'"
  using assms
proof (induction ks arbitrary: s)
  case Nil
  then show ?case by simp
next
  case (Cons k ks)
  from Cons.prems(1) obtain t where t: "body k s = Some t" and rest: "for_loop ks body t = Some s'"
    by (auto split: option.splits)
  have qt: "Q t" using Cons.prems(3)[of k s t] t Cons.prems(2) by simp
  have step: "Q u'" if "j \<in> set ks" "body j u = Some u'" "Q u" for j u u'
    using Cons.prems(3)[of j u u'] that by simp
  from Cons.IH[where s = t, OF rest qt] step show ?case by blast
qed

lemma for_loop_once:
  assumes "for_loop ks body s = Some s'"
    and "distinct ks" and "jz \<in> set ks"
    and "Q s"
    and "\<And>j t t'. j \<in> set ks \<Longrightarrow> j \<noteq> jz \<Longrightarrow> body j t = Some t' \<Longrightarrow> Q t \<Longrightarrow> Q t'"
    and "\<And>t t'. body jz t = Some t' \<Longrightarrow> Q t \<Longrightarrow> P t'"
    and "\<And>j t t'. j \<in> set ks \<Longrightarrow> j \<noteq> jz \<Longrightarrow> body j t = Some t' \<Longrightarrow> P t \<Longrightarrow> P t'"
  shows "P s'"
  using assms
proof (induction ks arbitrary: s)
  case Nil
  then show ?case by simp
next
  case (Cons k ks)
  from Cons.prems(1) obtain t where t: "body k s = Some t" and rest: "for_loop ks body t = Some s'"
    by (auto split: option.splits)
  have presQ: "Q u'" if "j \<in> set ks" "j \<noteq> jz" "body j u = Some u'" "Q u" for j u u'
    using Cons.prems(5)[of j u u'] that by simp
  have presP: "P u'" if "j \<in> set ks" "j \<noteq> jz" "body j u = Some u'" "P u" for j u u'
    using Cons.prems(7)[of j u u'] that by simp
  show ?case
  proof (cases "k = jz")
    case True
    have pt: "P t" using Cons.prems(6)[of s t] t True Cons.prems(4) by simp
    have "jz \<notin> set ks" using Cons.prems(2) True by simp
    then have step: "P u'" if "j \<in> set ks" "body j u = Some u'" "P u" for j u u'
      using presP[of j u u'] that by blast
    show ?thesis
      by (rule for_loop_preserve[where Q = P, OF rest pt]) (rule step)
  next
    case False
    have qt: "Q t" using Cons.prems(5)[of k s t] False t Cons.prems(4) by simp
    have d: "distinct ks" using Cons.prems(2) by simp
    have m: "jz \<in> set ks" using Cons.prems(3) False by simp
    from Cons.IH[where s = t, OF rest d m qt] presQ presP Cons.prems(6)
    show ?thesis by blast
  qed
qed

text \<open>Stores into an array, and loops that store at the index of the iteration.\<close>

lemma wr_Some: "wr a i v = Some a' \<Longrightarrow> 0 \<le> i \<and> i < int (length a) \<and> a' = a[nat i := v]"
  by (simp add: wr_def split: if_splits)

lemma wr_nth_same: "wr a i v = Some a' \<Longrightarrow> a' ! nat i = v"
  by (auto dest!: wr_Some)

lemma wr_nth_other: "wr a i v = Some a' \<Longrightarrow> 0 \<le> k \<Longrightarrow> k \<noteq> i \<Longrightarrow> a' ! nat k = a ! nat k"
  by (auto dest!: wr_Some)

lemma wr_length: "wr a i v = Some a' \<Longrightarrow> length a' = length a"
  by (auto dest!: wr_Some)

lemma store_loop_frame:
  assumes loop: "for_loop ks body dq = Some dq'"
    and st: "\<And>j d d'. j \<in> set ks \<Longrightarrow> body j d = Some d' \<Longrightarrow> \<exists>v. wr d j v = Some d'"
  shows "length dq' = length dq"
    and "0 \<le> i \<Longrightarrow> i \<notin> set ks \<Longrightarrow> dq' ! nat i = dq ! nat i"
proof -
  show "length dq' = length dq"
  proof (rule for_loop_preserve[where Q = "\<lambda>d. length d = length dq", OF loop])
    show "length dq = length dq" by simp
    show "\<And>j t t'. j \<in> set ks \<Longrightarrow> body j t = Some t' \<Longrightarrow> length t = length dq
        \<Longrightarrow> length t' = length dq"
      using st wr_length by fastforce
  qed
  assume i: "0 \<le> i" "i \<notin> set ks"
  show "dq' ! nat i = dq ! nat i"
  proof (rule for_loop_preserve[where Q = "\<lambda>d. d ! nat i = dq ! nat i", OF loop])
    show "dq ! nat i = dq ! nat i" by simp
    show "\<And>j t t'. j \<in> set ks \<Longrightarrow> body j t = Some t' \<Longrightarrow> t ! nat i = dq ! nat i
        \<Longrightarrow> t' ! nat i = dq ! nat i"
    proof -
      fix j t t' assume j: "j \<in> set ks" and b: "body j t = Some t'" and q: "t ! nat i = dq ! nat i"
      from st[OF j b] obtain v where "wr t j v = Some t'" by blast
      from wr_nth_other[OF this i(1)] j i(2) q show "t' ! nat i = dq ! nat i" by auto
    qed
  qed
qed

lemma zero_loop_sets:
  assumes loop: "for_loop ks (\<lambda>j d. wr d j 0) dq = Some dq'" and i: "i \<in> set ks"
  shows "0 \<le> i \<and> i < int (length dq') \<and> dq' ! nat i = 0"
proof -
  have "\<forall>j\<in>{} \<union> set ks. 0 \<le> j \<and> j < int (length dq') \<and> dq' ! nat j = 0"
  proof (rule for_loop_invariant[where I = "\<lambda>A d. \<forall>j\<in>A. 0 \<le> j \<and> j < int (length d) \<and> d ! nat j = 0",
        OF loop])
    show "\<forall>j\<in>{}. 0 \<le> j \<and> j < int (length dq) \<and> dq ! nat j = 0" by simp
    show "\<And>k t t' B. k \<in> set ks \<Longrightarrow> \<forall>j\<in>B. 0 \<le> j \<and> j < int (length t) \<and> t ! nat j = 0 \<Longrightarrow>
        wr t k 0 = Some t' \<Longrightarrow> \<forall>j\<in>insert k B. 0 \<le> j \<and> j < int (length t') \<and> t' ! nat j = 0"
      by (auto dest!: wr_Some simp: nth_list_update)
  qed
  with i show ?thesis by simp
qed

lemma zero_loop_all_zero:
  assumes loop: "for_loop ks (\<lambda>j d. wr d j 0) dq = Some dq'"
    and z: "\<forall>k<length dq. dq ! k = (0::int)"
  shows "\<forall>k<length dq'. dq' ! k = 0"
proof (rule for_loop_preserve[where Q = "\<lambda>d. \<forall>k<length d. d ! k = (0::int)", OF loop z])
  show "\<And>j t t'. j \<in> set ks \<Longrightarrow> wr t j 0 = Some t' \<Longrightarrow> \<forall>k<length t. t ! k = 0
      \<Longrightarrow> \<forall>k<length t'. t' ! k = 0"
    by (auto dest!: wr_Some simp: nth_list_update)
qed

subsection \<open>The line coverage rasterizer\<close>

lemma slice_loop_horizontal:
  assumes "6 \<le> length buf"
  shows "slice_loop p naxis1 False 5 5 0 (- 1) 0 0 2 buf
         = Some (buf[0 := p, 1 := p, 2 := p, 3 := p, 4 := p, 5 := p])"
  using assms
  by (auto simp add: slice_loop.simps wr_def Let_def)

text \<open>
  Claim C9. When the two endpoints convert to the grid indices \<open>(0, 0)\<close> and \<open>(5, 0)\<close>, in
  this order, and the scratch buffer has at least six entries, the rasterizer returns
  the buffer with the entries 0 to 5 set to \<open>overlap_partial\<close> and every other entry as
  it was. The flattened index of the cell \<open>(x, 0)\<close> is \<open>0 * naxis1 + x = x\<close>, so these are
  the six cells \<open>(0, 0)\<close> to \<open>(5, 0)\<close>.
\<close>

theorem horizontal_line_six_cells:
  assumes "cdelt1 \<noteq> 0" and "cdelt2 \<noteq> 0"
    and "c_int_of_double ((xi_min - xstart) / cdelt1) = 0"
    and "c_int_of_double ((eta_min - ystart) / cdelt2) = 0"
    and "c_int_of_double ((xi_max - xstart) / cdelt1) = 5"
    and "c_int_of_double ((eta_max - ystart) / cdelt2) = 0"
    and "6 \<le> length wave_slice_dq"
  shows "\<exists>dq. overlap_slice_with_spaxels overlap_partial cdelt1 cdelt2 naxis1 naxis2
             xstart ystart xi_min eta_min xi_max eta_max wave_slice_dq = Some dq
           \<and> length dq = length wave_slice_dq
           \<and> (\<forall>i < length dq. dq ! i = (if i < 6 then overlap_partial else wave_slice_dq ! i))"
proof -
  have run: "overlap_slice_with_spaxels overlap_partial cdelt1 cdelt2 naxis1 naxis2
             xstart ystart xi_min eta_min xi_max eta_max wave_slice_dq
      = slice_loop overlap_partial naxis1 False 5 5 0 (- 1) 0 0 2 wave_slice_dq"
    using assms(1-6) by (simp add: overlap_slice_with_spaxels_def Let_def c_int_of_double_def)
  show ?thesis
    unfolding run slice_loop_horizontal[OF assms(7)]
    by (auto simp: nth_list_update less_Suc_eq numeral_eq_Suc)
qed

text \<open>
  The theorem on a grid of 6 by 2 cells with unit steps and origin 0, for the segment
  from \<open>(0, 0)\<close> to \<open>(5, 0)\<close>.
\<close>

theorem horizontal_line_six_cells_witness:
  "((1::real) \<noteq> 0 \<and> (1::real) \<noteq> 0
    \<and> c_int_of_double ((0 - 0) / 1) = 0 \<and> c_int_of_double ((0 - 0) / 1) = 0
    \<and> c_int_of_double ((5 - 0) / 1) = 5 \<and> c_int_of_double ((0 - 0) / 1) = 0
    \<and> 6 \<le> length (replicate 12 (0::int)))
   \<and> (\<exists>dq. overlap_slice_with_spaxels 4 1 1 6 2 0 0 0 0 5 0 (replicate 12 0) = Some dq
           \<and> length dq = length (replicate 12 (0::int))
           \<and> (\<forall>i < length dq. dq ! i = (if i < 6 then 4 else replicate 12 0 ! i)))"
proof -
  have h: "(1::real) \<noteq> 0" "c_int_of_double ((0 - 0) / 1) = 0" "c_int_of_double ((5 - 0) / 1) = 5"
    "6 \<le> length (replicate 12 (0::int))"
    by (simp_all add: c_int_of_double_def)
  from horizontal_line_six_cells[OF h(1) h(1) h(2) h(2) h(3) h(2) h(4)] h
  show ?thesis by blast
qed

text \<open>
  Claim C2. The claim asks that a steep segment be walked along the vertical axis, one
  cell for each row between the rows of the two endpoints, with the axes swapped. The
  source assigns \<open>x1 = y1; y1 = x1; x2 = y2; y2 = x2;\<close> and then
  \<open>x1 = x2; x2 = x1; y1 = y2; y2 = y1;\<close>, which loses the horizontal indices and, when
  the first endpoint lies above the second, also the first endpoint. On a grid of 4 by 4
  cells with flag 4: the segment from \<open>(0, 0)\<close> to \<open>(1, 3)\<close> marks the diagonal cells
  \<open>(0, 0)\<close>, \<open>(1, 1)\<close>, \<open>(2, 2)\<close>, \<open>(3, 3)\<close>, two of them outside the columns 0 to 1 of the
  segment; the segment from \<open>(0, 3)\<close> to \<open>(1, 0)\<close> (sampling step \<open>- 1\<close> on the second axis)
  marks the single cell \<open>(0, 0)\<close> instead of one cell in each of the rows 0 to 3.
\<close>

theorem steep_walk_loses_endpoints:
  "overlap_slice_with_spaxels 4 1 1 4 4 0 0 0 0 1 3 (replicate 16 0) =
     Some [4, 0, 0, 0,  0, 4, 0, 0,  0, 0, 4, 0,  0, 0, 0, 4]
   \<and> overlap_slice_with_spaxels 4 1 (- 1) 4 4 0 3 0 0 1 3 (replicate 16 0) =
     Some [4, 0, 0, 0,  0, 0, 0, 0,  0, 0, 0, 0,  0, 0, 0, 0]"
  by code_simp

subsection \<open>The polygon coverage rasterizer\<close>

text \<open>
  Claim C1. The claim asks for the bounding box of the four corners and for every cell
  whose box lies strictly inside it to be thresholded. The source updates \<open>etamax\<close> with
  \<open>eta_corner[i] < etamax\<close>, so \<open>etamax\<close> ends as the minimum; it takes the bounds of a
  cell as \<open>(center - step) / 2\<close> and \<open>(center + step) / 2\<close>; and it reads \<open>ycenters[ix]\<close>
  for the vertical bounds. For the square with corners \<open>(0, 0)\<close>, \<open>(10, 0)\<close>, \<open>(10, 10)\<close>,
  \<open>(0, 10)\<close> the computed box has \<open>etamax = 0\<close>, and the one cell of a 1 by 1 grid with
  center \<open>(5, 5)\<close> and unit steps, whose box \<open>[4.5, 5.5] \<times> [4.5, 5.5]\<close> lies strictly
  inside the square, is left as it was whatever the overlap routine returns.
\<close>

theorem fov_skips_enclosed_cell:
  "fov_bounds [0, 10, 10, 0] [0, 0, 10, 10]
     = Some \<lparr>ximin = 0, ximax = 10, etamin = 0, etamax = 0\<rparr>
   \<and> overlap_fov_with_spaxels sh_find_overlap 1 2 1 1 1 1 [5] [5]
         [0, 10, 10, 0] [0, 0, 10, 10] [0]
       = Some [0]"
  by (simp add: overlap_fov_with_spaxels_def fov_bounds_def bbox_corner_def fov_column_def
      fov_cell_def rd_def wr_def upto_rec1)

text \<open>
  More generally, the box of the source has \<open>etamax = etamin\<close>, so with a sampling step
  \<open>cdelt2\<close> that is not negative no cell passes the test of line 332, and the rasterizer
  hands the scratch buffer back as it came.
\<close>

lemma bbox_corner_etamax:
  assumes "bbox_corner xi_corner eta_corner i b = Some b'" and "etamax b = etamin b"
  shows "etamax b' = etamin b'"
  using assms
  by (cases b) (auto simp: bbox_corner_def Let_def split: Option.bind_splits if_splits)

lemma fov_bounds_etamax:
  assumes "fov_bounds xi_corner eta_corner = Some b"
  shows "etamax b = etamin b"
proof -
  from assms obtain xi0 eta0 where loop: "for_loop [1..3] (bbox_corner xi_corner eta_corner)
         \<lparr>ximin = xi0, ximax = xi0, etamin = eta0, etamax = eta0\<rparr> = Some b"
    by (auto simp: fov_bounds_def split: Option.bind_splits)
  show ?thesis
    by (rule for_loop_preserve[where Q = "\<lambda>b. etamax b = etamin b", OF loop])
      (simp_all add: bbox_corner_etamax)
qed

lemma fov_cell_skipped:
  assumes "fov_cell sh_find_overlap overlap_partial overlap_full cdelt1 cdelt2 naxis1
             xcenters ycenters xi_corner eta_corner b ix iy dq = Some dq'"
    and "etamax b = etamin b" and "0 \<le> cdelt2"
  shows "dq' = dq"
  using assms
  by (auto simp: fov_cell_def Let_def split: Option.bind_splits if_splits)

lemma fov_column_skipped:
  assumes col: "fov_column sh_find_overlap overlap_partial overlap_full cdelt1 cdelt2 naxis1 naxis2
             xcenters ycenters xi_corner eta_corner b ix dq = Some dq'"
    and b: "etamax b = etamin b" and c: "0 \<le> cdelt2"
  shows "dq' = dq"
proof (cases "(xcenters ! nat ix - cdelt1) / 2 > ximin b \<and> (xcenters ! nat ix + cdelt1) / 2 < ximax b")
  case False
  with col show ?thesis
    by (auto simp: fov_column_def Let_def rd_def split: Option.bind_splits if_splits)
next
  case True
  with col have loop: "for_loop [0..naxis2 - 1]
           (fov_cell sh_find_overlap overlap_partial overlap_full cdelt1 cdelt2 naxis1
              xcenters ycenters xi_corner eta_corner b ix) dq = Some dq'"
    by (auto simp: fov_column_def Let_def rd_def split: Option.bind_splits if_splits)
  show ?thesis
    by (rule for_loop_preserve[where Q = "\<lambda>d. d = dq", OF loop])
      (use fov_cell_skipped[OF _ b c] in auto)
qed

lemma fov_flags_nothing:
  assumes run: "overlap_fov_with_spaxels sh_find_overlap overlap_partial overlap_full cdelt1 cdelt2
             naxis1 naxis2 xcenters ycenters xi_corner eta_corner wave_slice_dq = Some dq"
    and c: "0 \<le> cdelt2"
  shows "dq = wave_slice_dq"
proof -
  from run obtain b where box: "fov_bounds xi_corner eta_corner = Some b"
    and loop: "for_loop [0..naxis1 - 1]
         (fov_column sh_find_overlap overlap_partial overlap_full cdelt1 cdelt2 naxis1 naxis2
            xcenters ycenters xi_corner eta_corner b) wave_slice_dq = Some dq"
    by (auto simp: overlap_fov_with_spaxels_def split: Option.bind_splits)
  show ?thesis
    by (rule for_loop_preserve[where Q = "\<lambda>d. d = wave_slice_dq", OF loop])
      (use fov_column_skipped[OF _ fov_bounds_etamax[OF box] c] in auto)
qed

text \<open>
  The flattened index \<open>iy * naxis1 + ix\<close> determines the cell, so each entry of the
  buffer is written by one iteration at most.
\<close>

lemma cell_index_inj:
  fixes n :: int
  assumes "0 \<le> ix" "ix < n" "0 \<le> ix'" "ix' < n" "iy * n + ix = iy' * n + ix'"
  shows "ix = ix' \<and> iy = iy'"
proof -
  have "(iy * n + ix) mod n = ix" using assms(1,2) by simp
  moreover have "(iy' * n + ix') mod n = ix'" using assms(3,4) by simp
  ultimately have x: "ix = ix'" using assms(5) by simp
  with assms(5) have "iy * n = iy' * n" by simp
  moreover have "n \<noteq> 0" using assms(1,2) by simp
  ultimately have "iy = iy'" by simp
  with x show ?thesis by simp
qed

lemma fov_cell_frame:
  assumes "fov_cell sh_find_overlap overlap_partial overlap_full cdelt1 cdelt2 naxis1
             xcenters ycenters xi_corner eta_corner b ix iy dq = Some dq'"
    and "0 \<le> k" and "k \<noteq> iy * naxis1 + ix"
  shows "dq' ! nat k = dq ! nat k"
  using assms
  by (auto simp: fov_cell_def Let_def rd_def split: Option.bind_splits if_splits
      dest: wr_nth_other)

lemma fov_cell_flag:
  assumes "fov_cell sh_find_overlap overlap_partial overlap_full cdelt1 cdelt2 naxis1
             xcenters ycenters xi_corner eta_corner b ix iy dq = Some dq'"
    and "(ycenters ! nat ix - cdelt2) / 2 > etamin b" and "(ycenters ! nat ix + cdelt2) / 2 < etamax b"
  shows "thresholded overlap_partial overlap_full
           (coverage sh_find_overlap cdelt1 cdelt2 xcenters ycenters xi_corner eta_corner ix iy)
           (dq ! nat (iy * naxis1 + ix)) (dq' ! nat (iy * naxis1 + ix))"
  using assms
  by (auto simp: fov_cell_def Let_def rd_def thresholded_def coverage_def
      split: Option.bind_splits if_splits dest: wr_nth_same)

lemma fov_column_frame:
  assumes col: "fov_column sh_find_overlap overlap_partial overlap_full cdelt1 cdelt2 naxis1 naxis2
             xcenters ycenters xi_corner eta_corner b ix' dq = Some dq'"
    and k: "0 \<le> ix" "ix < naxis1" "0 \<le> iy" and ix': "0 \<le> ix'" "ix' < naxis1" "ix' \<noteq> ix"
  shows "dq' ! nat (iy * naxis1 + ix) = dq ! nat (iy * naxis1 + ix)"
proof (cases "(xcenters ! nat ix' - cdelt1) / 2 > ximin b \<and> (xcenters ! nat ix' + cdelt1) / 2 < ximax b")
  case False
  with col show ?thesis
    by (auto simp: fov_column_def Let_def rd_def split: Option.bind_splits if_splits)
next
  case True
  with col have loop: "for_loop [0..naxis2 - 1]
           (fov_cell sh_find_overlap overlap_partial overlap_full cdelt1 cdelt2 naxis1
              xcenters ycenters xi_corner eta_corner b ix') dq = Some dq'"
    by (auto simp: fov_column_def Let_def rd_def split: Option.bind_splits if_splits)
  have nonneg: "0 \<le> iy * naxis1 + ix" using k by simp
  show ?thesis
  proof (rule for_loop_preserve[where Q = "\<lambda>d. d ! nat (iy * naxis1 + ix) = dq ! nat (iy * naxis1 + ix)",
        OF loop])
    show "dq ! nat (iy * naxis1 + ix) = dq ! nat (iy * naxis1 + ix)" by simp
  next
    fix j t t'
    assume c: "fov_cell sh_find_overlap overlap_partial overlap_full cdelt1 cdelt2 naxis1
              xcenters ycenters xi_corner eta_corner b ix' j t = Some t'"
      and q: "t ! nat (iy * naxis1 + ix) = dq ! nat (iy * naxis1 + ix)"
    have "iy * naxis1 + ix \<noteq> j * naxis1 + ix'"
      using cell_index_inj[of ix naxis1 ix' iy j] k ix' by blast
    from fov_cell_frame[OF c nonneg this] q
    show "t' ! nat (iy * naxis1 + ix) = dq ! nat (iy * naxis1 + ix)" by simp
  qed
qed

lemma fov_column_flag:
  assumes col: "fov_column sh_find_overlap overlap_partial overlap_full cdelt1 cdelt2 naxis1 naxis2
             xcenters ycenters xi_corner eta_corner b ix dq = Some dq'"
    and k: "0 \<le> ix" "ix < naxis1" "0 \<le> iy" "iy < naxis2"
    and cons: "fov_considered cdelt1 cdelt2 xcenters ycenters b ix iy"
  shows "thresholded overlap_partial overlap_full
           (coverage sh_find_overlap cdelt1 cdelt2 xcenters ycenters xi_corner eta_corner ix iy)
           (dq ! nat (iy * naxis1 + ix)) (dq' ! nat (iy * naxis1 + ix))"
proof -
  let ?k = "nat (iy * naxis1 + ix)"
  let ?f = "coverage sh_find_overlap cdelt1 cdelt2 xcenters ycenters xi_corner eta_corner ix iy"
  from cons have x: "(xcenters ! nat ix - cdelt1) / 2 > ximin b \<and> (xcenters ! nat ix + cdelt1) / 2 < ximax b"
    and y: "(ycenters ! nat ix - cdelt2) / 2 > etamin b" "(ycenters ! nat ix + cdelt2) / 2 < etamax b"
    by (simp_all add: fov_considered_def)
  from col x have loop: "for_loop [0..naxis2 - 1]
           (fov_cell sh_find_overlap overlap_partial overlap_full cdelt1 cdelt2 naxis1
              xcenters ycenters xi_corner eta_corner b ix) dq = Some dq'"
    by (auto simp: fov_column_def Let_def rd_def split: Option.bind_splits if_splits)
  have nonneg: "0 \<le> iy * naxis1 + ix" using k by simp
  have d: "distinct [0..naxis2 - 1]" by simp
  have m: "iy \<in> set [0..naxis2 - 1]" using k by simp
  have fr: "t' ! ?k = t ! ?k"
    if "j \<noteq> iy" "fov_cell sh_find_overlap overlap_partial overlap_full cdelt1 cdelt2 naxis1
              xcenters ycenters xi_corner eta_corner b ix j t = Some t'" for j t t'
  proof -
    have ne: "iy * naxis1 + ix \<noteq> j * naxis1 + ix"
      using cell_index_inj[of ix naxis1 ix iy j] k that(1) by blast
    from fov_cell_frame[OF that(2) nonneg ne] show ?thesis .
  qed
  show ?thesis
  proof (rule for_loop_once[where jz = iy and Q = "\<lambda>d. d ! ?k = dq ! ?k"
        and P = "\<lambda>d. thresholded overlap_partial overlap_full ?f (dq ! ?k) (d ! ?k)",
        OF loop d m])
    show "dq ! ?k = dq ! ?k" by simp
    show "\<And>j t t'. j \<in> set [0..naxis2 - 1] \<Longrightarrow> j \<noteq> iy \<Longrightarrow>
       fov_cell sh_find_overlap overlap_partial overlap_full cdelt1 cdelt2 naxis1
              xcenters ycenters xi_corner eta_corner b ix j t = Some t' \<Longrightarrow>
       t ! ?k = dq ! ?k \<Longrightarrow> t' ! ?k = dq ! ?k"
      using fr by simp
    show "\<And>t t'. fov_cell sh_find_overlap overlap_partial overlap_full cdelt1 cdelt2 naxis1
              xcenters ycenters xi_corner eta_corner b ix iy t = Some t' \<Longrightarrow>
       t ! ?k = dq ! ?k \<Longrightarrow> thresholded overlap_partial overlap_full ?f (dq ! ?k) (t' ! ?k)"
      using fov_cell_flag[OF _ y] by fastforce
    show "\<And>j t t'. j \<in> set [0..naxis2 - 1] \<Longrightarrow> j \<noteq> iy \<Longrightarrow>
       fov_cell sh_find_overlap overlap_partial overlap_full cdelt1 cdelt2 naxis1
              xcenters ycenters xi_corner eta_corner b ix j t = Some t' \<Longrightarrow>
       thresholded overlap_partial overlap_full ?f (dq ! ?k) (t ! ?k) \<Longrightarrow>
       thresholded overlap_partial overlap_full ?f (dq ! ?k) (t' ! ?k)"
      using fr by simp
  qed
qed

text \<open>
  Claim C3. For a cell \<open>(ix, iy)\<close> of the grid that passes the tests of the rasterizer
  against its box, let the fraction be the area returned by \<open>sh_find_overlap\<close> divided by
  \<open>cdelt1 * cdelt2\<close>. When the rasterizer returns, the entry of the cell is what it was
  before (0 for the zeroed buffer of the orchestrator) if the fraction is at most 0.05,
  \<open>overlap_partial\<close> if the fraction is above 0.05 and at most 0.95, and \<open>overlap_full\<close>
  if it is above 0.95.
\<close>

theorem fov_cell_thresholds:
  assumes run: "overlap_fov_with_spaxels sh_find_overlap overlap_partial overlap_full cdelt1 cdelt2
             naxis1 naxis2 xcenters ycenters xi_corner eta_corner wave_slice_dq = Some dq"
    and box: "fov_bounds xi_corner eta_corner = Some b"
    and k: "0 \<le> ix" "ix < naxis1" "0 \<le> iy" "iy < naxis2"
    and cons: "fov_considered cdelt1 cdelt2 xcenters ycenters b ix iy"
  shows "thresholded overlap_partial overlap_full
           (coverage sh_find_overlap cdelt1 cdelt2 xcenters ycenters xi_corner eta_corner ix iy)
           (wave_slice_dq ! nat (iy * naxis1 + ix)) (dq ! nat (iy * naxis1 + ix))"
proof -
  let ?k = "nat (iy * naxis1 + ix)"
  let ?f = "coverage sh_find_overlap cdelt1 cdelt2 xcenters ycenters xi_corner eta_corner ix iy"
  from run box have loop: "for_loop [0..naxis1 - 1]
         (fov_column sh_find_overlap overlap_partial overlap_full cdelt1 cdelt2 naxis1 naxis2
            xcenters ycenters xi_corner eta_corner b) wave_slice_dq = Some dq"
    by (simp add: overlap_fov_with_spaxels_def)
  have d: "distinct [0..naxis1 - 1]" by simp
  have m: "ix \<in> set [0..naxis1 - 1]" using k by simp
  have fr: "t' ! ?k = t ! ?k"
    if "j \<in> set [0..naxis1 - 1]" "j \<noteq> ix"
      "fov_column sh_find_overlap overlap_partial overlap_full cdelt1 cdelt2 naxis1 naxis2
            xcenters ycenters xi_corner eta_corner b j t = Some t'" for j t t'
  proof -
    from that(1) have j': "0 \<le> j" "j < naxis1" by simp_all
    from fov_column_frame[OF that(3) k(1-3) j' that(2)] show ?thesis .
  qed
  show ?thesis
  proof (rule for_loop_once[where jz = ix and Q = "\<lambda>d. d ! ?k = wave_slice_dq ! ?k"
        and P = "\<lambda>d. thresholded overlap_partial overlap_full ?f (wave_slice_dq ! ?k) (d ! ?k)",
        OF loop d m])
    show "wave_slice_dq ! ?k = wave_slice_dq ! ?k" by simp
    show "\<And>j t t'. j \<in> set [0..naxis1 - 1] \<Longrightarrow> j \<noteq> ix \<Longrightarrow>
       fov_column sh_find_overlap overlap_partial overlap_full cdelt1 cdelt2 naxis1 naxis2
            xcenters ycenters xi_corner eta_corner b j t = Some t' \<Longrightarrow>
       t ! ?k = wave_slice_dq ! ?k \<Longrightarrow> t' ! ?k = wave_slice_dq ! ?k"
      using fr by simp
    show "\<And>t t'. fov_column sh_find_overlap overlap_partial overlap_full cdelt1 cdelt2 naxis1 naxis2
            xcenters ycenters xi_corner eta_corner b ix t = Some t' \<Longrightarrow>
       t ! ?k = wave_slice_dq ! ?k \<Longrightarrow>
       thresholded overlap_partial overlap_full ?f (wave_slice_dq ! ?k) (t' ! ?k)"
      using fov_column_flag[OF _ k cons] by fastforce
    show "\<And>j t t'. j \<in> set [0..naxis1 - 1] \<Longrightarrow> j \<noteq> ix \<Longrightarrow>
       fov_column sh_find_overlap overlap_partial overlap_full cdelt1 cdelt2 naxis1 naxis2
            xcenters ycenters xi_corner eta_corner b j t = Some t' \<Longrightarrow>
       thresholded overlap_partial overlap_full ?f (wave_slice_dq ! ?k) (t ! ?k) \<Longrightarrow>
       thresholded overlap_partial overlap_full ?f (wave_slice_dq ! ?k) (t' ! ?k)"
      using fr by simp
  qed
qed

text \<open>
  The theorem on a grid of one cell with center \<open>(0, 0)\<close> and the sampling steps \<open>- 1\<close>
  (see \<open>fov_flags_nothing\<close>: the source considers a cell only when \<open>cdelt2\<close> is
  negative), for an overlap routine that returns half the area of a cell: the fraction is
  0.5 and the entry changes from 0 to \<open>overlap_partial = 1\<close>.
\<close>

lemma fov_negative_steps:
  "overlap_fov_with_spaxels (\<lambda>xc yc dx dy xs ys. 1 / 2) 1 2 (- 1) (- 1) 1 1 [0] [0]
       [- 5, 5, 5, - 5] [0, 0, 10, 10] [0] = Some [1]"
  by code_simp

lemma fov_negative_steps_box:
  "fov_bounds [- 5, 5, 5, - 5] [0, 0, 10, 10]
     = Some \<lparr>ximin = - 5, ximax = 5, etamin = 0, etamax = 0\<rparr>"
  by code_simp

theorem fov_cell_thresholds_witness:
  "overlap_fov_with_spaxels (\<lambda>xc yc dx dy xs ys. 1 / 2) 1 2 (- 1) (- 1) 1 1 [0] [0]
       [- 5, 5, 5, - 5] [0, 0, 10, 10] [0] = Some [1]
   \<and> fov_bounds [- 5, 5, 5, - 5] [0, 0, 10, 10]
       = Some \<lparr>ximin = - 5, ximax = 5, etamin = 0, etamax = 0\<rparr>
   \<and> fov_considered (- 1) (- 1) [0] [0] \<lparr>ximin = - 5, ximax = 5, etamin = 0, etamax = 0\<rparr> 0 0
   \<and> coverage (\<lambda>xc yc dx dy xs ys. 1 / 2) (- 1) (- 1) [0] [0]
        [- 5, 5, 5, - 5] [0, 0, 10, 10] 0 0 = 1 / 2
   \<and> thresholded 1 2
        (coverage (\<lambda>xc yc dx dy xs ys. 1 / 2) (- 1) (- 1) [0] [0]
           [- 5, 5, 5, - 5] [0, 0, 10, 10] 0 0)
        ([0] ! nat (0 * 1 + 0)) ([1] ! nat (0 * 1 + 0))"
proof -
  have cons: "fov_considered (- 1) (- 1) [0] [0]
      \<lparr>ximin = - 5, ximax = 5, etamin = 0, etamax = 0\<rparr> 0 0"
    by code_simp
  have cov: "coverage (\<lambda>xc yc dx dy xs ys. 1 / 2) (- 1) (- 1) [0] [0]
        [- 5, 5, 5, - 5] [0, 0, 10, 10] 0 0 = 1 / 2"
    by code_simp
  have k: "(0::int) \<le> 0" "(0::int) < 1" by simp_all
  from fov_cell_thresholds[OF fov_negative_steps fov_negative_steps_box k(1) k(2) k(1) k(2) cons]
    fov_negative_steps fov_negative_steps_box cons cov
  show ?thesis by blast
qed

subsection \<open>The slice extent finder\<close>

lemma tracks_min_empty: "tracks_min init Q c {} init"
  by (simp add: tracks_min_def)

lemma tracks_max_empty: "tracks_max init Q c {} init"
  by (simp add: tracks_max_def)

lemma tracks_min_hit:
  "tracks_min init Q c A m \<Longrightarrow> Q p \<Longrightarrow> tracks_min init Q c (insert p A) (if c p < m then c p else m)"
  by (auto simp: tracks_min_def)

lemma tracks_min_miss:
  "tracks_min init Q c A m \<Longrightarrow> \<not> Q p \<Longrightarrow> tracks_min init Q c (insert p A) m"
  by (auto simp: tracks_min_def)

lemma tracks_max_hit:
  "tracks_max init Q c A m \<Longrightarrow> Q p \<Longrightarrow> tracks_max init Q c (insert p A) (if c p > m then c p else m)"
  by (auto simp: tracks_max_def)

lemma tracks_max_miss:
  "tracks_max init Q c A m \<Longrightarrow> \<not> Q p \<Longrightarrow> tracks_max init Q c (insert p A) m"
  by (auto simp: tracks_max_def)
lemma track_slice_fields:
  "track_slice t k c1 c2 =
     \<lparr>tab_c1_min = (if c1 < tab_c1_min t ! k then (tab_c1_min t)[k := c1] else tab_c1_min t),
      tab_c2_min = (if c2 < tab_c2_min t ! k then (tab_c2_min t)[k := c2] else tab_c2_min t),
      tab_c1_max = (if c1 > tab_c1_max t ! k then (tab_c1_max t)[k := c1] else tab_c1_max t),
      tab_c2_max = (if c2 > tab_c2_max t ! k then (tab_c2_max t)[k := c2] else tab_c2_max t)\<rparr>"
  by (cases t) (simp add: track_slice_def Let_def)

lemma nirspec_point_Some:
  assumes "nirspec_point wave_plane roiw_ave coord1 coord2 wave sliceno ipt (t, ii) = Some (t', ii')"
  shows "if \<bar>wave_plane - wave ! nat ipt\<bar> < roiw_ave
         then 0 \<le> c_int_of_double (sliceno ! nat ipt) - 1 \<and>
              nat (c_int_of_double (sliceno ! nat ipt) - 1) < 30 \<and> ii' = ii + 1 \<and>
              t' = track_slice t (nat (c_int_of_double (sliceno ! nat ipt) - 1))
                     (coord1 ! nat ipt) (coord2 ! nat ipt)
         else t' = t \<and> ii' = ii"
  using assms
  by (simp add: nirspec_point_def rd_def Let_def split: if_splits Option.bind_splits)

lemma table_inv_step:
  assumes "table_inv wave_plane roiw_ave coord1 coord2 wave sliceno B tii"
    and "nirspec_point wave_plane roiw_ave coord1 coord2 wave sliceno ipt tii = Some tii'"
  shows "table_inv wave_plane roiw_ave coord1 coord2 wave sliceno (insert ipt B) tii'"
proof -
  obtain t ii where tii: "tii = (t, ii)" by (cases tii)
  obtain t' ii' where tii': "tii' = (t', ii')" by (cases tii')
  note S = nirspec_point_Some[OF assms(2)[unfolded tii tii']]
  note I = assms(1)[unfolded tii table_inv_def, simplified]
  show ?thesis
  proof (cases "\<bar>wave_plane - wave ! nat ipt\<bar> < roiw_ave")
    case False
    with S have eq: "t' = t" "ii' = ii" by simp_all
    have miss: "\<not> on_slice wave_plane roiw_ave wave sliceno i ipt" for i
      using False by (simp add: on_slice_def)
    show ?thesis
      unfolding tii' table_inv_def eq using I False
      by (auto intro!: tracks_min_miss tracks_max_miss miss)
  next
    case True
    define k where "k = nat (c_int_of_double (sliceno ! nat ipt) - 1)"
    from S True have k: "0 \<le> c_int_of_double (sliceno ! nat ipt) - 1" "k < 30" and ii': "ii' = ii + 1"
      and t': "t' = track_slice t k (coord1 ! nat ipt) (coord2 ! nat ipt)"
      by (simp_all add: k_def)
    have f1: "tab_c1_min t' = (if coord1 ! nat ipt < tab_c1_min t ! k then (tab_c1_min t)[k := coord1 ! nat ipt] else tab_c1_min t)"
      and f2: "tab_c2_min t' = (if coord2 ! nat ipt < tab_c2_min t ! k then (tab_c2_min t)[k := coord2 ! nat ipt] else tab_c2_min t)"
      and f3: "tab_c1_max t' = (if coord1 ! nat ipt > tab_c1_max t ! k then (tab_c1_max t)[k := coord1 ! nat ipt] else tab_c1_max t)"
      and f4: "tab_c2_max t' = (if coord2 ! nat ipt > tab_c2_max t ! k then (tab_c2_max t)[k := coord2 ! nat ipt] else tab_c2_max t)"
      unfolding t' track_slice_fields by simp_all
    have on: "on_slice wave_plane roiw_ave wave sliceno i ipt \<longleftrightarrow> i = k" for i
      using True k by (auto simp: on_slice_def k_def)
    have entry: "i < 30 \<Longrightarrow>
          tracks_min minvalue (on_slice wave_plane roiw_ave wave sliceno i) (\<lambda>p. coord1 ! nat p) (insert ipt B) (tab_c1_min t' ! i) \<and>
          tracks_min minvalue (on_slice wave_plane roiw_ave wave sliceno i) (\<lambda>p. coord2 ! nat p) (insert ipt B) (tab_c2_min t' ! i) \<and>
          tracks_max maxvalue (on_slice wave_plane roiw_ave wave sliceno i) (\<lambda>p. coord1 ! nat p) (insert ipt B) (tab_c1_max t' ! i) \<and>
          tracks_max maxvalue (on_slice wave_plane roiw_ave wave sliceno i) (\<lambda>p. coord2 ! nat p) (insert ipt B) (tab_c2_max t' ! i)" for i
    proof (cases "i = k")
      case True
      assume "i < 30"
      with I have T: "tracks_min minvalue (on_slice wave_plane roiw_ave wave sliceno k) (\<lambda>p. coord1 ! nat p) B (tab_c1_min t ! k)"
          "tracks_min minvalue (on_slice wave_plane roiw_ave wave sliceno k) (\<lambda>p. coord2 ! nat p) B (tab_c2_min t ! k)"
          "tracks_max maxvalue (on_slice wave_plane roiw_ave wave sliceno k) (\<lambda>p. coord1 ! nat p) B (tab_c1_max t ! k)"
          "tracks_max maxvalue (on_slice wave_plane roiw_ave wave sliceno k) (\<lambda>p. coord2 ! nat p) B (tab_c2_max t ! k)"
        and len: "length (tab_c1_min t) = 30" "length (tab_c2_min t) = 30" "length (tab_c1_max t) = 30" "length (tab_c2_max t) = 30"
        using True by simp_all
      have onk: "on_slice wave_plane roiw_ave wave sliceno k ipt" using on by simp
      show ?thesis
        unfolding True f1 f2 f3 f4
        using tracks_min_hit[OF T(1) onk] tracks_min_hit[OF T(2) onk]
          tracks_max_hit[OF T(3) onk] tracks_max_hit[OF T(4) onk] k(2) len
        by (simp split: if_splits)
    next
      case False
      assume "i < 30"
      with I have T: "tracks_min minvalue (on_slice wave_plane roiw_ave wave sliceno i) (\<lambda>p. coord1 ! nat p) B (tab_c1_min t ! i)"
          "tracks_min minvalue (on_slice wave_plane roiw_ave wave sliceno i) (\<lambda>p. coord2 ! nat p) B (tab_c2_min t ! i)"
          "tracks_max maxvalue (on_slice wave_plane roiw_ave wave sliceno i) (\<lambda>p. coord1 ! nat p) B (tab_c1_max t ! i)"
          "tracks_max maxvalue (on_slice wave_plane roiw_ave wave sliceno i) (\<lambda>p. coord2 ! nat p) B (tab_c2_max t ! i)"
        by simp_all
      have off: "\<not> on_slice wave_plane roiw_ave wave sliceno i ipt" using on False by simp
      show ?thesis
        unfolding f1 f2 f3 f4
        using tracks_min_miss[OF T(1) off] tracks_min_miss[OF T(2) off]
          tracks_max_miss[OF T(3) off] tracks_max_miss[OF T(4) off] False
        by (simp split: if_splits)
    qed
    have lens: "length (tab_c1_min t') = 30" "length (tab_c2_min t') = 30"
       "length (tab_c1_max t') = 30" "length (tab_c2_max t') = 30"
      using I unfolding f1 f2 f3 f4 by (simp_all split: if_splits)
    have cnt: "0 \<le> ii'" "ii' = 0 \<longleftrightarrow> (\<forall>p\<in>insert ipt B. \<not> \<bar>wave_plane - wave ! nat p\<bar> < roiw_ave)"
      using I True ii' by auto
    show ?thesis
      unfolding tii' table_inv_def using entry lens cnt by simp
  qed
qed

lemma table_inv_init:
  "table_inv wave_plane roiw_ave coord1 coord2 wave sliceno {} (table_init, 0)"
  by (simp add: table_inv_def table_init_def tracks_min_empty tracks_max_empty)

lemma match_wave_plane_nirspec_inv:
  assumes "match_wave_plane_nirspec wave_plane roiw_ave coord1 coord2 wave sliceno npt
             = Some (ii, t, match_slice)"
  shows "table_inv wave_plane roiw_ave coord1 coord2 wave sliceno {0..npt - 1} (t, ii)"
    and "match_slice = map (slice_matched t ii) [0..<30]"
proof -
  from assms have loop: "for_loop [0..npt - 1]
       (nirspec_point wave_plane roiw_ave coord1 coord2 wave sliceno) (table_init, 0) = Some (t, ii)"
    and ms: "match_slice = map (slice_matched t ii) [0..<30]"
    by (auto simp: match_wave_plane_nirspec_def split: Option.bind_splits)
  have "table_inv wave_plane roiw_ave coord1 coord2 wave sliceno ({} \<union> set [0..npt - 1]) (t, ii)"
    by (rule for_loop_invariant[where I = "table_inv wave_plane roiw_ave coord1 coord2 wave sliceno",
          OF loop table_inv_init]) (rule table_inv_step)
  then show "table_inv wave_plane roiw_ave coord1 coord2 wave sliceno {0..npt - 1} (t, ii)"
    by simp
  show "match_slice = map (slice_matched t ii) [0..<30]" by (rule ms)
qed

lemma match_slice_nth:
  assumes "match_wave_plane_nirspec wave_plane roiw_ave coord1 coord2 wave sliceno npt
             = Some (ii, t, match_slice)" and "i < 30"
  shows "match_slice ! i = slice_matched t ii i"
  using match_wave_plane_nirspec_inv(2)[OF assms(1)] assms(2) by simp

text \<open>
  Claim C5. When the finder returns, a slice is marked matched only if the tracked
  minimum is strictly below the tracked maximum on both axes, and then two qualifying
  points of the slice differ in \<open>coord1\<close> and two differ in \<open>coord2\<close>. A slice whose
  qualifying points all share one value of \<open>coord1\<close> is not marked matched, whatever
  their \<open>coord2\<close>; nor is a slice with at most one qualifying point.
\<close>

theorem matched_slice_has_range:
  assumes run: "match_wave_plane_nirspec wave_plane roiw_ave coord1 coord2 wave sliceno npt
             = Some (ii, t, match_slice)"
    and i: "i < 30"
  shows "(match_slice ! i = 1 \<longrightarrow>
            tab_c1_min t ! i < tab_c1_max t ! i \<and> tab_c2_min t ! i < tab_c2_max t ! i \<and>
            (\<exists>p\<in>{0..npt - 1}. \<exists>q\<in>{0..npt - 1}.
               on_slice wave_plane roiw_ave wave sliceno i p \<and>
               on_slice wave_plane roiw_ave wave sliceno i q \<and>
               coord1 ! nat p < coord1 ! nat q) \<and>
            (\<exists>p\<in>{0..npt - 1}. \<exists>q\<in>{0..npt - 1}.
               on_slice wave_plane roiw_ave wave sliceno i p \<and>
               on_slice wave_plane roiw_ave wave sliceno i q \<and>
               coord2 ! nat p < coord2 ! nat q))
       \<and> ((\<exists>v. \<forall>p\<in>{0..npt - 1}. on_slice wave_plane roiw_ave wave sliceno i p
                  \<longrightarrow> coord1 ! nat p = v) \<longrightarrow> match_slice ! i = 0)
       \<and> ((\<exists>p0. \<forall>p\<in>{0..npt - 1}. on_slice wave_plane roiw_ave wave sliceno i p \<longrightarrow> p = p0)
             \<longrightarrow> match_slice ! i = 0)"
proof -
  let ?Q = "on_slice wave_plane roiw_ave wave sliceno i"
  let ?A = "{0..npt - 1}"
  from match_wave_plane_nirspec_inv(1)[OF run] i
  have mn1: "tracks_min minvalue ?Q (\<lambda>p. coord1 ! nat p) ?A (tab_c1_min t ! i)"
    and mn2: "tracks_min minvalue ?Q (\<lambda>p. coord2 ! nat p) ?A (tab_c2_min t ! i)"
    and mx1: "tracks_max maxvalue ?Q (\<lambda>p. coord1 ! nat p) ?A (tab_c1_max t ! i)"
    and mx2: "tracks_max maxvalue ?Q (\<lambda>p. coord2 ! nat p) ?A (tab_c2_max t ! i)"
    by (simp_all add: table_inv_def)
  note m = match_slice_nth[OF run i]
  have range: "\<exists>p\<in>A. \<exists>q\<in>A. Q p \<and> Q q \<and> c p < c q \<and> lo = c p \<and> hi = c q"
    if "tracks_min minvalue Q c A lo" "tracks_max maxvalue Q c A hi"
      "lo \<noteq> minvalue" "hi \<noteq> maxvalue" "lo \<noteq> hi"
    for Q c A lo hi
  proof -
    from that(1,3) obtain p where p: "p \<in> A" "Q p" "lo = c p" by (auto simp: tracks_min_def)
    from that(2,4) obtain q where q: "q \<in> A" "Q q" "hi = c q" by (auto simp: tracks_max_def)
    from that(2) p have "c p \<le> hi" by (auto simp: tracks_max_def)
    with that(5) p q have "c p < c q" by simp
    with p q show ?thesis by blast
  qed
  have flat: "lo = minvalue \<or> hi = maxvalue \<or> lo = hi"
    if "tracks_min minvalue Q c A lo" "tracks_max maxvalue Q c A hi"
      "\<forall>p\<in>A. Q p \<longrightarrow> c p = v"
    for Q c A lo hi v
    using that by (auto simp: tracks_min_def tracks_max_def)
  have part1: "match_slice ! i = 1 \<longrightarrow>
            tab_c1_min t ! i < tab_c1_max t ! i \<and> tab_c2_min t ! i < tab_c2_max t ! i \<and>
            (\<exists>p\<in>?A. \<exists>q\<in>?A. ?Q p \<and> ?Q q \<and> coord1 ! nat p < coord1 ! nat q) \<and>
            (\<exists>p\<in>?A. \<exists>q\<in>?A. ?Q p \<and> ?Q q \<and> coord2 ! nat p < coord2 ! nat q)"
  proof
    assume "match_slice ! i = 1"
    with m have ne: "tab_c1_min t ! i \<noteq> minvalue" "tab_c2_min t ! i \<noteq> minvalue"
      "tab_c1_max t ! i \<noteq> maxvalue" "tab_c2_max t ! i \<noteq> maxvalue"
      "tab_c1_min t ! i \<noteq> tab_c1_max t ! i" "tab_c2_min t ! i \<noteq> tab_c2_max t ! i"
      by (simp_all add: slice_matched_def split: if_splits)
    from range[OF mn1 mx1 ne(1) ne(3) ne(5)] range[OF mn2 mx2 ne(2) ne(4) ne(6)]
    show "tab_c1_min t ! i < tab_c1_max t ! i \<and> tab_c2_min t ! i < tab_c2_max t ! i \<and>
            (\<exists>p\<in>?A. \<exists>q\<in>?A. ?Q p \<and> ?Q q \<and> coord1 ! nat p < coord1 ! nat q) \<and>
            (\<exists>p\<in>?A. \<exists>q\<in>?A. ?Q p \<and> ?Q q \<and> coord2 ! nat p < coord2 ! nat q)"
      by metis
  qed
  have part2: "match_slice ! i = 0" if "\<forall>p\<in>?A. ?Q p \<longrightarrow> coord1 ! nat p = v" for v
    using flat[OF mn1 mx1 that] m by (auto simp: slice_matched_def)
  have part3: "match_slice ! i = 0" if "\<forall>p\<in>?A. ?Q p \<longrightarrow> p = p0" for p0
  proof (rule part2)
    show "\<forall>p\<in>?A. ?Q p \<longrightarrow> coord1 ! nat p = coord1 ! nat p0" using that by auto
  qed
  from part1 part2 part3 show ?thesis by blast
qed

text \<open>
  Three points on the plane: two of slice 1 at \<open>(0, 0)\<close> and \<open>(1, 1)\<close>, one of slice 2.
  Slice 1 is matched and has a range on both axes; slice 2, with its single point, is
  not.
\<close>

lemma nirspec_three_points:
  "match_wave_plane_nirspec 0 1 [0, 1, 2] [0, 1, 2] [0, 0, 0] [1, 1, 2] 3 =
     Some (3,
       \<lparr>tab_c1_min = (replicate 30 10000)[0 := 0, 1 := 2],
        tab_c2_min = (replicate 30 10000)[0 := 0, 1 := 2],
        tab_c1_max = (replicate 30 (- 10000))[0 := 1, 1 := 2],
        tab_c2_max = (replicate 30 (- 10000))[0 := 1, 1 := 2]\<rparr>,
       1 # replicate 29 0)"
  by code_simp

theorem matched_slice_has_range_witness:
  "\<exists>ii t match_slice.
     match_wave_plane_nirspec 0 1 [0, 1, 2] [0, 1, 2] [0, 0, 0] [1, 1, 2] 3
       = Some (ii, t, match_slice)
     \<and> match_slice ! 0 = 1
     \<and> tab_c1_min t ! 0 < tab_c1_max t ! 0 \<and> tab_c2_min t ! 0 < tab_c2_max t ! 0
     \<and> (\<exists>p0. \<forall>p\<in>{0..3 - 1}. on_slice 0 1 [0, 0, 0] [1, 1, 2] 1 p \<longrightarrow> p = p0)
     \<and> match_slice ! 1 = 0"
proof -
  have m: "(1 # replicate 29 (0::int)) ! 0 = 1" by simp
  have single: "\<exists>p0. \<forall>p\<in>{0..3 - 1}. on_slice 0 1 [0, 0, 0] [1, 1, 2] 1 p \<longrightarrow> p = p0"
  proof
    show "\<forall>p\<in>{0..3 - 1}. on_slice 0 1 [0, 0, 0] [1, 1, 2] 1 p \<longrightarrow> p = 2"
      by code_simp
  qed
  have i0: "(0::nat) < 30" and i1: "(1::nat) < 30" by simp_all
  from matched_slice_has_range[OF nirspec_three_points i0] m
  have r0: "tab_c1_min \<lparr>tab_c1_min = (replicate 30 10000)[0 := 0, 1 := 2],
        tab_c2_min = (replicate 30 10000)[0 := 0, 1 := 2],
        tab_c1_max = (replicate 30 (- 10000))[0 := 1, 1 := 2],
        tab_c2_max = (replicate 30 (- 10000))[0 := 1, 1 := 2]\<rparr> ! 0
      < tab_c1_max \<lparr>tab_c1_min = (replicate 30 10000)[0 := 0, 1 := 2],
        tab_c2_min = (replicate 30 10000)[0 := 0, 1 := 2],
        tab_c1_max = (replicate 30 (- 10000))[0 := 1, 1 := 2],
        tab_c2_max = (replicate 30 (- 10000))[0 := 1, 1 := 2]\<rparr> ! 0"
    and r0': "tab_c2_min \<lparr>tab_c1_min = (replicate 30 10000)[0 := 0, 1 := 2],
        tab_c2_min = (replicate 30 10000)[0 := 0, 1 := 2],
        tab_c1_max = (replicate 30 (- 10000))[0 := 1, 1 := 2],
        tab_c2_max = (replicate 30 (- 10000))[0 := 1, 1 := 2]\<rparr> ! 0
      < tab_c2_max \<lparr>tab_c1_min = (replicate 30 10000)[0 := 0, 1 := 2],
        tab_c2_min = (replicate 30 10000)[0 := 0, 1 := 2],
        tab_c1_max = (replicate 30 (- 10000))[0 := 1, 1 := 2],
        tab_c2_max = (replicate 30 (- 10000))[0 := 1, 1 := 2]\<rparr> ! 0"
    by blast+
  from matched_slice_has_range[OF nirspec_three_points i1] single
  have r1: "(1 # replicate 29 (0::int)) ! 1 = 0" by blast
  from nirspec_three_points m r0 r0' single r1 show ?thesis by blast
qed

lemma nirspec_sentinel:
  assumes run: "match_wave_plane_nirspec wave_plane roiw_ave coord1 coord2 wave sliceno npt
             = Some (ii, t, match_slice)"
    and i: "i < 30"
    and out: "(\<forall>p\<in>{0..npt - 1}. on_slice wave_plane roiw_ave wave sliceno i p \<longrightarrow> 10000 \<le> coord1 ! nat p)
            \<or> (\<forall>p\<in>{0..npt - 1}. on_slice wave_plane roiw_ave wave sliceno i p \<longrightarrow> 10000 \<le> coord2 ! nat p)
            \<or> (\<forall>p\<in>{0..npt - 1}. on_slice wave_plane roiw_ave wave sliceno i p \<longrightarrow> coord1 ! nat p \<le> - 10000)
            \<or> (\<forall>p\<in>{0..npt - 1}. on_slice wave_plane roiw_ave wave sliceno i p \<longrightarrow> coord2 ! nat p \<le> - 10000)"
  shows "match_slice ! i = 0"
proof -
  let ?Q = "on_slice wave_plane roiw_ave wave sliceno i"
  let ?A = "{0..npt - 1}"
  from match_wave_plane_nirspec_inv(1)[OF run] i
  have mn1: "tracks_min minvalue ?Q (\<lambda>p. coord1 ! nat p) ?A (tab_c1_min t ! i)"
    and mn2: "tracks_min minvalue ?Q (\<lambda>p. coord2 ! nat p) ?A (tab_c2_min t ! i)"
    and mx1: "tracks_max maxvalue ?Q (\<lambda>p. coord1 ! nat p) ?A (tab_c1_max t ! i)"
    and mx2: "tracks_max maxvalue ?Q (\<lambda>p. coord2 ! nat p) ?A (tab_c2_max t ! i)"
    by (simp_all add: table_inv_def)
  have lo: "m = minvalue" if "tracks_min minvalue Q c A m" "\<forall>p\<in>A. Q p \<longrightarrow> 10000 \<le> c p" for Q c A m
    using that by (auto simp: tracks_min_def minvalue_def)
  have hi: "m = maxvalue" if "tracks_max maxvalue Q c A m" "\<forall>p\<in>A. Q p \<longrightarrow> c p \<le> - 10000" for Q c A m
    using that by (auto simp: tracks_max_def maxvalue_def)
  from out lo[OF mn1] lo[OF mn2] hi[OF mx1] hi[OF mx2]
  have "tab_c1_min t ! i = minvalue \<or> tab_c2_min t ! i = minvalue \<or>
        tab_c1_max t ! i = maxvalue \<or> tab_c2_max t ! i = maxvalue" by blast
  then show ?thesis
    using match_slice_nth[OF run i] by (auto simp: slice_matched_def)
qed

subsection \<open>The FOV boundary finder\<close>

lemma track_extrema_fields:
  "track_extrema e ipt c1 c2 =
     \<lparr>c1_min = (if c1 < c1_min e then c1 else c1_min e),
      ic1_min = (if c1 < c1_min e then ipt else ic1_min e),
      c1_max = (if c1 > c1_max e then c1 else c1_max e),
      ic1_max = (if c1 > c1_max e then ipt else ic1_max e),
      c2_min = (if c2 < c2_min e then c2 else c2_min e),
      ic2_min = (if c2 < c2_min e then ipt else ic2_min e),
      c2_max = (if c2 > c2_max e then c2 else c2_max e),
      ic2_max = (if c2 > c2_max e then ipt else ic2_max e)\<rparr>"
  by (cases e) (simp add: track_extrema_def Let_def)

lemma min_at_hit:
  "min_at Q c A m i \<Longrightarrow> Q p \<Longrightarrow> p \<noteq> - 1 \<Longrightarrow>
   min_at Q c (insert p A) (if c p < m then c p else m) (if c p < m then p else i)"
  by (auto simp: min_at_def split: if_splits)

lemma min_at_miss: "min_at Q c A m i \<Longrightarrow> \<not> Q p \<Longrightarrow> min_at Q c (insert p A) m i"
  by (auto simp: min_at_def split: if_splits)

lemma max_at_hit:
  "max_at Q c A m i \<Longrightarrow> Q p \<Longrightarrow> p \<noteq> - 1 \<Longrightarrow>
   max_at Q c (insert p A) (if c p > m then c p else m) (if c p > m then p else i)"
  by (auto simp: max_at_def split: if_splits)

lemma max_at_miss: "max_at Q c A m i \<Longrightarrow> \<not> Q p \<Longrightarrow> max_at Q c (insert p A) m i"
  by (auto simp: max_at_def split: if_splits)

lemma extrema_inv_init: "extrema_inv Q c1 c2 {} extrema_init"
  by (simp add: extrema_inv_def extrema_init_def min_at_def max_at_def)

lemma extrema_inv_hit:
  assumes "extrema_inv Q c1 c2 A e" "Q p" "p \<noteq> - 1"
  shows "extrema_inv Q c1 c2 (insert p A) (track_extrema e p (c1 p) (c2 p))"
  using assms
  unfolding extrema_inv_def track_extrema_fields
  by (simp add: min_at_hit max_at_hit)

lemma extrema_inv_miss:
  assumes "extrema_inv Q c1 c2 A e" "\<not> Q p"
  shows "extrema_inv Q c1 c2 (insert p A) e"
  using assms
  unfolding extrema_inv_def
  by (simp add: min_at_miss max_at_miss)

lemma miri_point_Some:
  assumes "miri_point f32 w start_region end_region roiw_ave zc coord1 coord2 wave sliceno ipt (s, e)
             = Some (s', e')"
  shows "s' = (if miri_tracked f32 w start_region roiw_ave zc coord1 wave sliceno ipt
               then track_extrema s ipt (f32 (coord1 ! nat ipt)) (f32 (coord2 ! nat ipt)) else s)"
    and "e' = (if miri_tracked f32 w end_region roiw_ave zc coord1 wave sliceno ipt
               then track_extrema e ipt (f32 (coord1 ! nat ipt)) (f32 (coord2 ! nat ipt)) else e)"
  using assms
  by (auto simp: miri_point_def rd_def miri_tracked_def miri_qualifies_def Let_def
      split: if_splits Option.bind_splits)
lemma miri_inv_step:
  assumes "miri_inv f32 w start_region end_region roiw_ave zc coord1 coord2 wave sliceno B se"
    and "miri_point f32 w start_region end_region roiw_ave zc coord1 coord2 wave sliceno ipt se = Some se'"
    and "ipt \<noteq> - 1"
  shows "miri_inv f32 w start_region end_region roiw_ave zc coord1 coord2 wave sliceno (insert ipt B) se'"
proof -
  obtain s e where se: "se = (s, e)" by (cases se)
  obtain s' e' where se': "se' = (s', e')" by (cases se')
  note P = miri_point_Some[OF assms(2)[unfolded se se']]
  from assms(1) have I: "extrema_inv (miri_tracked f32 w start_region roiw_ave zc coord1 wave sliceno)
       (\<lambda>p. f32 (coord1 ! nat p)) (\<lambda>p. f32 (coord2 ! nat p)) B s"
    "extrema_inv (miri_tracked f32 w end_region roiw_ave zc coord1 wave sliceno)
       (\<lambda>p. f32 (coord1 ! nat p)) (\<lambda>p. f32 (coord2 ! nat p)) B e"
    by (simp_all add: miri_inv_def se)
  have "extrema_inv (miri_tracked f32 w start_region roiw_ave zc coord1 wave sliceno)
       (\<lambda>p. f32 (coord1 ! nat p)) (\<lambda>p. f32 (coord2 ! nat p)) (insert ipt B) s'"
    unfolding P(1) using extrema_inv_hit[OF I(1) _ assms(3)] extrema_inv_miss[OF I(1)]
    by (simp split: if_splits)
  moreover have "extrema_inv (miri_tracked f32 w end_region roiw_ave zc coord1 wave sliceno)
       (\<lambda>p. f32 (coord1 ! nat p)) (\<lambda>p. f32 (coord2 ! nat p)) (insert ipt B) e'"
    unfolding P(2) using extrema_inv_hit[OF I(2) _ assms(3)] extrema_inv_miss[OF I(2)]
    by (simp split: if_splits)
  ultimately show ?thesis by (simp add: miri_inv_def se')
qed

lemma miri_scan_inv:
  assumes "miri_scan f32 w start_region end_region roiw_ave zc coord1 coord2 wave sliceno npt = Some se"
  shows "miri_inv f32 w start_region end_region roiw_ave zc coord1 coord2 wave sliceno {0..npt - 1} se"
proof -
  have init: "miri_inv f32 w start_region end_region roiw_ave zc coord1 coord2 wave sliceno {}
      (extrema_init, extrema_init)"
    by (simp add: miri_inv_def extrema_inv_init)
  have "miri_inv f32 w start_region end_region roiw_ave zc coord1 coord2 wave sliceno
          ({} \<union> set [0..npt - 1]) se"
  proof (rule for_loop_invariant[where I = "miri_inv f32 w start_region end_region roiw_ave zc coord1 coord2 wave sliceno",
          OF assms[unfolded miri_scan_def] init])
    fix k t t' B
    assume "k \<in> set [0..npt - 1]"
      and "miri_inv f32 w start_region end_region roiw_ave zc coord1 coord2 wave sliceno B t"
      and "miri_point f32 w start_region end_region roiw_ave zc coord1 coord2 wave sliceno k t = Some t'"
    then show "miri_inv f32 w start_region end_region roiw_ave zc coord1 coord2 wave sliceno (insert k B) t'"
      by (intro miri_inv_step[where se = t]) auto
  qed
  then show ?thesis by simp
qed


lemma corner_wave_plane_miri_Some:
  assumes "corner_wave_plane_miri f32 w start_region end_region roiw_ave zc coord1 coord2 wave sliceno
             ncube npt cs = Some (status, k1, k2, k3, k4)"
  obtains s e where
    "miri_scan f32 w start_region end_region roiw_ave zc coord1 coord2 wave sliceno npt = Some (s, e)"
    "ic1_min s = - 1 \<or> ic1_max s = - 1 \<or> ic1_min e = - 1 \<or> ic1_max e = - 1
       \<Longrightarrow> status = 1 \<and> (k1, k2, k3, k4) = cs"
    "\<not> (ic1_min s = - 1 \<or> ic1_max s = - 1 \<or> ic1_min e = - 1 \<or> ic1_max e = - 1)
       \<Longrightarrow> status = 0"
    "\<not> (ic1_min s = - 1 \<or> ic1_max s = - 1 \<or> ic1_min e = - 1 \<or> ic1_max e = - 1)
       \<Longrightarrow> f32 (c1_max s - c1_min s) < f32 (c2_max s - c2_min s)
       \<Longrightarrow> point_at coord1 coord2 (ic2_min s) = Some k1 \<and> point_at coord1 coord2 (ic2_max s) = Some k2 \<and>
           point_at coord1 coord2 (ic2_max e) = Some k3 \<and> point_at coord1 coord2 (ic2_min e) = Some k4"
    "\<not> (ic1_min s = - 1 \<or> ic1_max s = - 1 \<or> ic1_min e = - 1 \<or> ic1_max e = - 1)
       \<Longrightarrow> \<not> f32 (c1_max s - c1_min s) < f32 (c2_max s - c2_min s)
       \<Longrightarrow> point_at coord1 coord2 (ic1_min s) = Some k1 \<and> point_at coord1 coord2 (ic1_max s) = Some k2 \<and>
           point_at coord1 coord2 (ic1_max e) = Some k3 \<and> point_at coord1 coord2 (ic1_min e) = Some k4"
proof -
  from assms obtain s e where scan:
    "miri_scan f32 w start_region end_region roiw_ave zc coord1 coord2 wave sliceno npt = Some (s, e)"
    by (auto simp: corner_wave_plane_miri_def split: Option.bind_splits)
  let ?nf = "ic1_min s = - 1 \<or> ic1_max s = - 1 \<or> ic1_min e = - 1 \<or> ic1_max e = - 1"
  let ?c2 = "f32 (c1_max s - c1_min s) < f32 (c2_max s - c2_min s)"
  have a: "?nf \<Longrightarrow> status = 1 \<and> (k1, k2, k3, k4) = cs"
    using assms scan by (auto simp: corner_wave_plane_miri_def)
  have b: "\<not> ?nf \<Longrightarrow> status = 0"
    using assms scan
    by (auto simp: corner_wave_plane_miri_def Let_def split: Option.bind_splits if_splits)
  have c: "\<not> ?nf \<Longrightarrow> ?c2 \<Longrightarrow>
           point_at coord1 coord2 (ic2_min s) = Some k1 \<and> point_at coord1 coord2 (ic2_max s) = Some k2 \<and>
           point_at coord1 coord2 (ic2_max e) = Some k3 \<and> point_at coord1 coord2 (ic2_min e) = Some k4"
    using assms scan
    by (auto simp: corner_wave_plane_miri_def Let_def split: Option.bind_splits)
  have d: "\<not> ?nf \<Longrightarrow> \<not> ?c2 \<Longrightarrow>
           point_at coord1 coord2 (ic1_min s) = Some k1 \<and> point_at coord1 coord2 (ic1_max s) = Some k2 \<and>
           point_at coord1 coord2 (ic1_max e) = Some k3 \<and> point_at coord1 coord2 (ic1_min e) = Some k4"
    using assms scan
    by (auto simp: corner_wave_plane_miri_def Let_def split: Option.bind_splits)
  from that[OF scan a b c d] show thesis by blast
qed

lemma min_at_unset: "min_at Q c A m i \<Longrightarrow> i = - 1 \<longleftrightarrow> \<not> (\<exists>p\<in>A. Q p \<and> c p < 10000)"
  by (auto simp: min_at_def split: if_splits)

lemma max_at_unset: "max_at Q c A m i \<Longrightarrow> i = - 1 \<longleftrightarrow> \<not> (\<exists>p\<in>A. Q p \<and> - 10000 < c p)"
  by (auto simp: max_at_def split: if_splits)

text \<open>
  Claim C4, as the code has it. The claim says that the status is nonzero exactly when
  one of the two extreme slices has no point within the region of interest. The finder
  skips a point whose narrowed first coordinate equals \<open>- 1\<close> (the tests \<open>c11 != -1\<close> and
  \<open>c12 != -1\<close>), and it looks for its extrema below \<open>10000\<close> and above \<open>- 10000\<close> only.
  So: whenever the finder returns, the status is nonzero exactly when, for the start
  slice or for the end slice, no minimum or no maximum of the first coordinate was
  recorded, that is, when the slice has no tracked point with first coordinate below
  \<open>10000\<close> or none with first coordinate above \<open>- 10000\<close>; and with a nonzero status the
  four corners are handed back as they came.
\<close>

theorem boundary_status:
  assumes "corner_wave_plane_miri f32 w start_region end_region roiw_ave zc coord1 coord2 wave sliceno
             ncube npt cs = Some (status, cs')"
  shows "(status \<noteq> 0 \<longleftrightarrow>
            \<not> (\<exists>p\<in>{0..npt - 1}. miri_tracked f32 w start_region roiw_ave zc coord1 wave sliceno p
                  \<and> f32 (coord1 ! nat p) < 10000)
          \<or> \<not> (\<exists>p\<in>{0..npt - 1}. miri_tracked f32 w start_region roiw_ave zc coord1 wave sliceno p
                  \<and> - 10000 < f32 (coord1 ! nat p))
          \<or> \<not> (\<exists>p\<in>{0..npt - 1}. miri_tracked f32 w end_region roiw_ave zc coord1 wave sliceno p
                  \<and> f32 (coord1 ! nat p) < 10000)
          \<or> \<not> (\<exists>p\<in>{0..npt - 1}. miri_tracked f32 w end_region roiw_ave zc coord1 wave sliceno p
                  \<and> - 10000 < f32 (coord1 ! nat p)))
       \<and> (status \<noteq> 0 \<longrightarrow> cs' = cs)"
proof -
  obtain k1 k2 k3 k4 where cs': "cs' = (k1, k2, k3, k4)" by (cases cs') auto
  from assms[unfolded cs'] obtain s e where
    scan: "miri_scan f32 w start_region end_region roiw_ave zc coord1 coord2 wave sliceno npt = Some (s, e)"
    and nf: "ic1_min s = - 1 \<or> ic1_max s = - 1 \<or> ic1_min e = - 1 \<or> ic1_max e = - 1
       \<Longrightarrow> status = 1 \<and> (k1, k2, k3, k4) = cs"
    and ok: "\<not> (ic1_min s = - 1 \<or> ic1_max s = - 1 \<or> ic1_min e = - 1 \<or> ic1_max e = - 1)
       \<Longrightarrow> status = 0"
    by (rule corner_wave_plane_miri_Some) blast
  from miri_scan_inv[OF scan]
  have I: "min_at (miri_tracked f32 w start_region roiw_ave zc coord1 wave sliceno)
             (\<lambda>p. f32 (coord1 ! nat p)) {0..npt - 1} (c1_min s) (ic1_min s)"
    "max_at (miri_tracked f32 w start_region roiw_ave zc coord1 wave sliceno)
             (\<lambda>p. f32 (coord1 ! nat p)) {0..npt - 1} (c1_max s) (ic1_max s)"
    "min_at (miri_tracked f32 w end_region roiw_ave zc coord1 wave sliceno)
             (\<lambda>p. f32 (coord1 ! nat p)) {0..npt - 1} (c1_min e) (ic1_min e)"
    "max_at (miri_tracked f32 w end_region roiw_ave zc coord1 wave sliceno)
             (\<lambda>p. f32 (coord1 ! nat p)) {0..npt - 1} (c1_max e) (ic1_max e)"
    by (simp_all add: miri_inv_def extrema_inv_def)
  have st: "status \<noteq> 0 \<longleftrightarrow> ic1_min s = - 1 \<or> ic1_max s = - 1 \<or> ic1_min e = - 1 \<or> ic1_max e = - 1"
    using nf ok by auto
  show ?thesis
    unfolding st min_at_unset[OF I(1)] max_at_unset[OF I(2)] min_at_unset[OF I(3)] max_at_unset[OF I(4)]
    using nf st cs'
    unfolding min_at_unset[OF I(1)] max_at_unset[OF I(2)] min_at_unset[OF I(3)] max_at_unset[OF I(4)]
    by blast
qed

text \<open>
  The claim as stated fails on two points, the first on the start slice 1 with
  coordinates \<open>(- 1, 0)\<close>, the second on the end slice 2 with coordinates \<open>(0, 0)\<close>, both
  at the wavelength of the plane: each slice has a qualifying point, and the status is 1.
\<close>

theorem boundary_status_counterexample:
  "corner_wave_plane_miri id 0 1 2 1 [0] [- 1, 0] [0, 0] [0, 0] [1, 2] 2 2
       ((9, 9), (9, 9), (9, 9), (9, 9)) = Some (1, (9, 9), (9, 9), (9, 9), (9, 9))
   \<and> miri_qualifies 0 1 1 [0] [0, 0] [1, 2] 0
   \<and> miri_qualifies 0 2 1 [0] [0, 0] [1, 2] 1"
  by code_simp

text \<open>
  The theorem on two points of which the one on the start slice lies outside the region
  of interest: the status is 1, no point of the start slice is tracked, and the corners
  are unchanged.
\<close>

lemma miri_start_slice_missing:
  "corner_wave_plane_miri id 0 1 2 1 [0] [3, 4] [0, 0] [5, 0] [1, 2] 2 2
       ((9, 9), (9, 9), (9, 9), (9, 9)) = Some (1, (9, 9), (9, 9), (9, 9), (9, 9))"
  by code_simp

theorem boundary_status_witness:
  "corner_wave_plane_miri id 0 1 2 1 [0] [3, 4] [0, 0] [5, 0] [1, 2] 2 2
       ((9, 9), (9, 9), (9, 9), (9, 9)) = Some (1, (9, 9), (9, 9), (9, 9), (9, 9))
   \<and> ((1::int) \<noteq> 0) =
        (\<not> (\<exists>p\<in>{0..2 - 1}. miri_tracked id 0 1 1 [0] [3, 4] [5, 0] [1, 2] p
                  \<and> id ([3, 4] ! nat p) < (10000::real))
          \<or> \<not> (\<exists>p\<in>{0..2 - 1}. miri_tracked id 0 1 1 [0] [3, 4] [5, 0] [1, 2] p
                  \<and> (- 10000::real) < id ([3, 4] ! nat p))
          \<or> \<not> (\<exists>p\<in>{0..2 - 1}. miri_tracked id 0 2 1 [0] [3, 4] [5, 0] [1, 2] p
                  \<and> id ([3, 4] ! nat p) < (10000::real))
          \<or> \<not> (\<exists>p\<in>{0..2 - 1}. miri_tracked id 0 2 1 [0] [3, 4] [5, 0] [1, 2] p
                  \<and> (- 10000::real) < id ([3, 4] ! nat p)))
   \<and> \<not> (\<exists>p\<in>{0..2 - 1}. miri_tracked id 0 1 1 [0] [3, 4] [5, 0] [1, 2] p)"
proof -
  have none: "\<not> (\<exists>p\<in>{0..2 - 1}. miri_tracked id 0 1 1 [0] [3, 4] [5, 0] [1, 2] p)"
    by code_simp
  from boundary_status[OF miri_start_slice_missing] miri_start_slice_missing none
  show ?thesis by blast
qed



















lemma miri_sentinel:
  assumes scan: "miri_scan f32 w start_region end_region roiw_ave zc coord1 coord2 wave sliceno npt = Some (s, e)"
    and p: "p \<noteq> - 1"
  shows "(10000 \<le> f32 (coord1 ! nat p) \<longrightarrow> ic1_min s \<noteq> p \<and> ic1_min e \<noteq> p)
       \<and> (10000 \<le> f32 (coord2 ! nat p) \<longrightarrow> ic2_min s \<noteq> p \<and> ic2_min e \<noteq> p)
       \<and> (f32 (coord1 ! nat p) \<le> - 10000 \<longrightarrow> ic1_max s \<noteq> p \<and> ic1_max e \<noteq> p)
       \<and> (f32 (coord2 ! nat p) \<le> - 10000 \<longrightarrow> ic2_max s \<noteq> p \<and> ic2_max e \<noteq> p)"
proof -
  have lo: "i \<noteq> p" if "min_at Q c A m i" "10000 \<le> c p" for Q c A m i
    using that p by (auto simp: min_at_def split: if_splits)
  have hi: "i \<noteq> p" if "max_at Q c A m i" "c p \<le> - 10000" for Q c A m i
    using that p by (auto simp: max_at_def split: if_splits)
  from miri_scan_inv[OF scan] show ?thesis
    unfolding miri_inv_def extrema_inv_def fst_conv snd_conv
    using lo hi by blast
qed

subsection \<open>The hard-coded range of both finders\<close>

text \<open>
  Claim C10, as the code has it. The running minima start at \<open>10000\<close> and the running
  maxima at \<open>- 10000\<close>. In the slice extent finder a slice is not marked matched when all
  its qualifying points have \<open>coord1\<close> at or above \<open>10000\<close>, or all have \<open>coord2\<close> at or
  above \<open>10000\<close>, or all have \<open>coord1\<close> at or below \<open>- 10000\<close>, or all have \<open>coord2\<close> at or
  below \<open>- 10000\<close>. In the boundary finder a point whose (narrowed) coordinate is at or
  above \<open>10000\<close> is never recorded as the minimum of that coordinate, and a point whose
  coordinate is at or below \<open>- 10000\<close> never as its maximum, for either slice. The claim
  says more for the boundary finder, namely that such a point is never recorded as an
  extremum at all; a point at or above \<open>10000\<close> can be recorded as a maximum.
\<close>

theorem sentinel_range:
  assumes "match_wave_plane_nirspec wave_plane roiw_ave coord1 coord2 wave sliceno npt
             = Some (ii, t, match_slice)"
    and "i < 30"
    and "(\<forall>p\<in>{0..npt - 1}. on_slice wave_plane roiw_ave wave sliceno i p
              \<longrightarrow> 10000 \<le> coord1 ! nat p)
         \<or> (\<forall>p\<in>{0..npt - 1}. on_slice wave_plane roiw_ave wave sliceno i p
              \<longrightarrow> 10000 \<le> coord2 ! nat p)
         \<or> (\<forall>p\<in>{0..npt - 1}. on_slice wave_plane roiw_ave wave sliceno i p
              \<longrightarrow> coord1 ! nat p \<le> - 10000)
         \<or> (\<forall>p\<in>{0..npt - 1}. on_slice wave_plane roiw_ave wave sliceno i p
              \<longrightarrow> coord2 ! nat p \<le> - 10000)"
    and "miri_scan f32 w start_region end_region roiw_ave' zc xs ys ws sl n = Some (s, e)"
    and "p \<noteq> - 1"
  shows "match_slice ! i = 0
       \<and> (10000 \<le> f32 (xs ! nat p) \<longrightarrow> ic1_min s \<noteq> p \<and> ic1_min e \<noteq> p)
       \<and> (10000 \<le> f32 (ys ! nat p) \<longrightarrow> ic2_min s \<noteq> p \<and> ic2_min e \<noteq> p)
       \<and> (f32 (xs ! nat p) \<le> - 10000 \<longrightarrow> ic1_max s \<noteq> p \<and> ic1_max e \<noteq> p)
       \<and> (f32 (ys ! nat p) \<le> - 10000 \<longrightarrow> ic2_max s \<noteq> p \<and> ic2_max e \<noteq> p)"
  using nirspec_sentinel[OF assms(1-3)] miri_sentinel[OF assms(4,5)] by (rule conjI)

text \<open>
  The claim as stated fails on the start slice 1 with the points \<open>(0, 0)\<close> and
  \<open>(20000, 1)\<close> and the end slice 2 with \<open>(0, 10)\<close> and \<open>(5, 11)\<close>: point 1 qualifies, its
  first coordinate is above \<open>10000\<close>, the scan records it as the maximum of the first
  coordinate on the start slice, and it becomes corner 2.
\<close>

theorem sentinel_range_counterexample:
  "corner_wave_plane_miri id 0 1 2 1 [0] [0, 20000, 0, 5] [0, 1, 10, 11]
       [0, 0, 0, 0] [1, 1, 2, 2] 4 4 ((9, 9), (9, 9), (9, 9), (9, 9))
     = Some (0, (0, 0), (20000, 1), (5, 11), (0, 10))
   \<and> miri_qualifies 0 1 1 [0] [0, 0, 0, 0] [1, 1, 2, 2] 1
   \<and> (10000::real) \<le> [0, 20000, 0, 5] ! 1
   \<and> map_option (ic1_max \<circ> fst)
        (miri_scan id 0 1 2 1 [0] [0, 20000, 0, 5] [0, 1, 10, 11]
           [0, 0, 0, 0] [1, 1, 2, 2] 4) = Some 1"
  by code_simp

text \<open>
  The theorem on a slice 1 whose two points have the first coordinates \<open>10000\<close> and
  \<open>20000\<close>, and on the scan of the four points above, for the point 1.
\<close>

lemma nirspec_far_slice:
  "match_wave_plane_nirspec 0 1 [10000, 20000] [0, 1] [0, 0] [1, 1] 2
     = Some (2,
         \<lparr>tab_c1_min = replicate 30 10000, tab_c2_min = (replicate 30 10000)[0 := 0],
          tab_c1_max = (replicate 30 (- 10000))[0 := 20000],
          tab_c2_max = (replicate 30 (- 10000))[0 := 1]\<rparr>,
         replicate 30 0)"
  by code_simp

lemma miri_far_point_scan:
  "miri_scan id 0 1 2 1 [0] [0, 20000, 0, 5] [0, 1, 10, 11] [0, 0, 0, 0] [1, 1, 2, 2] 4
     = Some (\<lparr>c1_min = 0, ic1_min = 0, c1_max = 20000, ic1_max = 1,
              c2_min = 0, ic2_min = 0, c2_max = 1, ic2_max = 1\<rparr>,
             \<lparr>c1_min = 0, ic1_min = 2, c1_max = 5, ic1_max = 3,
              c2_min = 10, ic2_min = 2, c2_max = 11, ic2_max = 3\<rparr>)"
  by code_simp

theorem sentinel_range_witness:
  "\<exists>ii t match_slice s e.
     match_wave_plane_nirspec 0 1 [10000, 20000] [0, 1] [0, 0] [1, 1] 2 = Some (ii, t, match_slice)
     \<and> (\<forall>p\<in>{0..2 - 1}. on_slice 0 1 [0, 0] [1, 1] 0 p \<longrightarrow> (10000::real) \<le> [10000, 20000] ! nat p)
     \<and> miri_scan id 0 1 2 1 [0] [0, 20000, 0, 5] [0, 1, 10, 11] [0, 0, 0, 0] [1, 1, 2, 2] 4
         = Some (s, e)
     \<and> (10000::real) \<le> id ([0, 20000, 0, 5] ! nat 1)
     \<and> match_slice ! 0 = 0
     \<and> ic1_min s \<noteq> 1 \<and> ic1_min e \<noteq> 1"
proof -
  have far: "(\<forall>p\<in>{0..2 - 1}. on_slice 0 1 [0, 0] [1, 1] 0 p \<longrightarrow> (10000::real) \<le> [10000, 20000] ! nat p)"
    by code_simp
  then have out: "(\<forall>p\<in>{0..2 - 1}. on_slice 0 1 [0, 0] [1, 1] 0 p
              \<longrightarrow> (10000::real) \<le> [10000, 20000] ! nat p)
         \<or> (\<forall>p\<in>{0..2 - 1}. on_slice 0 1 [0, 0] [1, 1] 0 p
              \<longrightarrow> (10000::real) \<le> [0, 1] ! nat p)
         \<or> (\<forall>p\<in>{0..2 - 1}. on_slice 0 1 [0, 0] [1, 1] 0 p
              \<longrightarrow> [10000, 20000] ! nat p \<le> (- 10000::real))
         \<or> (\<forall>p\<in>{0..2 - 1}. on_slice 0 1 [0, 0] [1, 1] 0 p
              \<longrightarrow> [0, 1] ! nat p \<le> (- 10000::real))"
    by (rule disjI1)
  have i: "(0::nat) < 30" and p: "(1::int) \<noteq> - 1" by simp_all
  have big: "(10000::real) \<le> id ([0, 20000, 0, 5] ! nat 1)" by simp
  from sentinel_range[OF nirspec_far_slice i out miri_far_point_scan p] big
  have "replicate 30 (0::int) ! 0 = 0
      \<and> ic1_min \<lparr>c1_min = 0, ic1_min = 0, c1_max = 20000, ic1_max = 1,
              c2_min = 0, ic2_min = 0, c2_max = 1, ic2_max = 1\<rparr> \<noteq> 1
      \<and> ic1_min \<lparr>c1_min = 0, ic1_min = 2, c1_max = 5, ic1_max = 3,
              c2_min = 10, ic2_min = 2, c2_max = 11, ic2_max = 3\<rparr> \<noteq> 1"
    by blast
  with nirspec_far_slice miri_far_point_scan far big show ?thesis by blast
qed

subsection \<open>The orchestrators\<close>

text \<open>
  Claim C7. The claim asks both orchestrators to return the status 1 when an allocation
  fails. \<open>dq_miri\<close> allocates through \<open>mem_alloc_dq\<close> and does so. \<open>dq_nirspec\<close> calls
  \<open>calloc\<close> itself for the output array (line 768) and does not test the pointer: when
  that allocation fails for a cube of one voxel, the store \<open>idqv[0] = 0\<close> of line 771
  goes through the null pointer and the routine returns no status, while \<open>dq_miri\<close> on
  the same failure returns 1.
\<close>

theorem nirspec_unchecked_calloc:
  "dq_nirspec id (\<lambda>k. False) 4 1 1 1 1 1 1 [0] [0] [0] [] [] [] [] 1 0 = None
   \<and> dq_miri id sh_find_overlap (\<lambda>k. False) 1 2 4 8 1 1 1 1 1 1 [0] [0] [0] [] [] [] [] 1 0
       = Some (1, None)"
  by (simp add: dq_nirspec_def dq_miri_def calloc_int_def mem_alloc_dq_def wr_def)

text \<open>
  The regions of two planes in the output array do not meet, and the region of a plane
  \<open>w \<ge> 0\<close> has no negative index.
\<close>

lemma region_disjoint:
  fixes nxy :: int
  assumes "nxy * w \<le> i" "i < nxy * w + nxy" "nxy * j \<le> i" "i < nxy * j + nxy"
  shows "j = w"
proof -
  have pos: "0 < nxy" using assms(1,2) by linarith
  have "\<not> w < j"
  proof
    assume "w < j"
    then have "w + 1 \<le> j" by simp
    then have "nxy * (w + 1) \<le> nxy * j" using pos by (simp add: mult_left_mono)
    with assms(2,3) show False by (simp add: distrib_left)
  qed
  moreover have "\<not> j < w"
  proof
    assume "j < w"
    then have "j + 1 \<le> w" by simp
    then have "nxy * (j + 1) \<le> nxy * w" using pos by (simp add: mult_left_mono)
    with assms(1,4) show False by (simp add: distrib_left)
  qed
  ultimately show ?thesis by simp
qed

lemma region_nonneg:
  fixes nxy :: int
  assumes "nxy * w \<le> i" "i < nxy * w + nxy" "0 \<le> w"
  shows "0 \<le> i"
proof -
  have "0 < nxy" using assms(1,2) by linarith
  then have "0 \<le> nxy * w" using assms(3) by simp
  with assms(1) show ?thesis by simp
qed

lemma miri_not_found:
  assumes run: "corner_wave_plane_miri f32 w start_region end_region roiw_ave zc coord1 coord2 wave
             sliceno ncube npt cs = Some (status, cs')"
    and none: "\<forall>p\<in>{0..npt - 1}. \<not> miri_qualifies w start_region roiw_ave zc wave sliceno p"
  shows "status = 1"
proof -
  obtain k1 k2 k3 k4 where cs': "cs' = (k1, k2, k3, k4)" by (cases cs') auto
  from run[unfolded cs'] obtain s e where
    scan: "miri_scan f32 w start_region end_region roiw_ave zc coord1 coord2 wave sliceno npt = Some (s, e)"
    and nf: "ic1_min s = - 1 \<or> ic1_max s = - 1 \<or> ic1_min e = - 1 \<or> ic1_max e = - 1
       \<Longrightarrow> status = 1 \<and> (k1, k2, k3, k4) = cs"
    by (rule corner_wave_plane_miri_Some) blast
  from miri_scan_inv[OF scan]
  have "min_at (miri_tracked f32 w start_region roiw_ave zc coord1 wave sliceno)
             (\<lambda>p. f32 (coord1 ! nat p)) {0..npt - 1} (c1_min s) (ic1_min s)"
    by (simp add: miri_inv_def extrema_inv_def)
  from min_at_unset[OF this] none have "ic1_min s = - 1"
    by (auto simp: miri_tracked_def)
  with nf show ?thesis by simp
qed

lemma miri_plane_effect:
  assumes pl: "miri_plane f32 sh_find_overlap start_region end_region overlap_partial overlap_full
       nx ny cdelt1 cdelt2 roiw_ave xc yc zc coord1 coord2 wave sliceno ncube npt w
       (idqv, buf, cs) = Some (idqv', buf', cs')"
  shows "0 \<le> i \<Longrightarrow> \<not> (nx * ny * w \<le> i \<and> i < nx * ny * w + nx * ny) \<Longrightarrow> idqv' ! nat i = idqv ! nat i"
    and "length idqv' = length idqv"
    and "\<forall>p\<in>{0..npt - 1}. \<not> miri_qualifies w start_region roiw_ave zc wave sliceno p \<Longrightarrow>
         nx * ny * w \<le> i \<Longrightarrow> i < nx * ny * w + nx * ny \<Longrightarrow>
         i < int (length idqv') \<and> idqv' ! nat i = 0"
proof -
  from pl obtain buf0 status_wave where
    corner: "corner_wave_plane_miri f32 w start_region end_region roiw_ave zc
               coord1 coord2 wave sliceno ncube npt cs = Some (status_wave, cs')"
    and copy: "for_loop [nx * ny * w..nx * ny * w + nx * ny - 1]
                    (\<lambda>inx dq.
                       if status_wave = 0
                       then do { v \<leftarrow> rd buf' (inx - nx * ny * w); wr dq inx v }
                       else wr dq inx 0)
                    idqv = Some idqv'"
    by (auto simp: miri_plane_def Let_def split: Option.bind_splits prod.splits)
  have st: "\<exists>v. wr d j v = Some d'"
    if "(if status_wave = 0
                       then do { v \<leftarrow> rd buf' (j - nx * ny * w); wr d j v }
                       else wr d j 0) = Some d'" for j d d'
    using that by (auto split: if_splits Option.bind_splits)
  show "0 \<le> i \<Longrightarrow> \<not> (nx * ny * w \<le> i \<and> i < nx * ny * w + nx * ny) \<Longrightarrow> idqv' ! nat i = idqv ! nat i"
    using store_loop_frame(2)[OF copy st, of i] by auto
  show "length idqv' = length idqv"
    using store_loop_frame(1)[OF copy st] by blast
  assume none: "\<forall>p\<in>{0..npt - 1}. \<not> miri_qualifies w start_region roiw_ave zc wave sliceno p"
    and i: "nx * ny * w \<le> i" "i < nx * ny * w + nx * ny"
  from miri_not_found[OF corner none] have "status_wave \<noteq> 0" by simp
  with copy have z: "for_loop [nx * ny * w..nx * ny * w + nx * ny - 1] (\<lambda>j d. wr d j 0) idqv = Some idqv'"
    by simp
  from zero_loop_sets[OF z, of i] i show "i < int (length idqv') \<and> idqv' ! nat i = 0" by simp
qed

lemma dq_miri_empty_plane:
  assumes run: "dq_miri f32 sh_find_overlap alloc_ok start_region end_region overlap_partial overlap_full
       nx ny nz cdelt1 cdelt2 roiw_ave xc yc zc coord1 coord2 wave sliceno ncube npt
       = Some (status, Some out)"
    and w: "0 \<le> w" "w < nz"
    and none: "\<forall>p\<in>{0..npt - 1}. \<not> miri_qualifies w start_region roiw_ave zc wave sliceno p"
    and i: "nx * ny * w \<le> i" "i < nx * ny * w + nx * ny"
  shows "i < int (length out) \<and> out ! nat i = 0"
proof -
  from run obtain idqv0 buf0 bufn csn where
    loop: "for_loop [0..nz - 1]
            (miri_plane f32 sh_find_overlap start_region end_region
               overlap_partial overlap_full nx ny cdelt1 cdelt2 roiw_ave
               xc yc zc coord1 coord2 wave sliceno ncube npt)
            (idqv0, buf0, ((0, 0), (0, 0), (0, 0), (0, 0))) = Some (out, bufn, csn)"
    by (auto simp: dq_miri_def Let_def split: prod.splits if_splits Option.bind_splits)
  let ?body = "miri_plane f32 sh_find_overlap start_region end_region
               overlap_partial overlap_full nx ny cdelt1 cdelt2 roiw_ave
               xc yc zc coord1 coord2 wave sliceno ncube npt"
  let ?P = "\<lambda>st. i < int (length (fst st)) \<and> fst st ! nat i = 0"
  have i0: "0 \<le> i" using region_nonneg[OF i w(1)] .
  have d: "distinct [0..nz - 1]" by simp
  have m: "w \<in> set [0..nz - 1]" using w by simp
  have est: "?P t'" if "?body w t = Some t'" for t t'
  proof -
    obtain a b c where t: "t = (a, b, c)" by (cases t)
    obtain a' b' c' where t': "t' = (a', b', c')" by (cases t')
    from miri_plane_effect(3)[OF that[unfolded t t'] none i] show ?thesis by (simp add: t')
  qed
  have pres: "?P t'" if "j \<noteq> w" "?body j t = Some t'" "?P t" for j t t'
  proof -
    obtain a b c where t: "t = (a, b, c)" by (cases t)
    obtain a' b' c' where t': "t' = (a', b', c')" by (cases t')
    have out: "\<not> (nx * ny * j \<le> i \<and> i < nx * ny * j + nx * ny)"
      using region_disjoint[OF i, of j] that(1) by blast
    note pl = that(2)[unfolded t t']
    have len: "length a' = length a" by (rule miri_plane_effect(2)[OF pl])
    from miri_plane_effect(1)[OF pl i0 out] that(3) len show ?thesis by (simp add: t t')
  qed
  have "?P (out, bufn, csn)"
    by (rule for_loop_once[where jz = w and Q = "\<lambda>_. True" and P = ?P, OF loop d m])
      (use est pres in auto)
  then show ?thesis by simp
qed

lemma nirspec_no_match:
  assumes "match_wave_plane_nirspec zw roiw_ave coord1 coord2 wave sliceno npt = Some (imatch, t, ms)"
    and "\<forall>p\<in>{0..npt - 1}. \<not> \<bar>zw - wave ! nat p\<bar> < roiw_ave"
  shows "imatch = 0"
  using match_wave_plane_nirspec_inv(1)[OF assms(1)] assms(2)
  by (simp add: table_inv_def)

lemma nirspec_plane_Some:
  assumes pl: "nirspec_plane f32 ok overlap_partial nx ny cdelt1 cdelt2 roiw_ave xc yc zc
       coord1 coord2 wave sliceno npt w idqv = Some (Inr idqv')"
  shows "\<exists>imatch t ms buf slice_found.
      match_wave_plane_nirspec (zc ! nat w) roiw_ave coord1 coord2 wave sliceno npt = Some (imatch, t, ms)
    \<and> nirspec_copy nx ny w imatch slice_found buf idqv = Some idqv'"
  using pl
  by (auto simp: nirspec_plane_def Let_def rd_def split: Option.bind_splits prod.splits if_splits)

lemma nirspec_copy_effect:
  assumes copy: "nirspec_copy nx ny w imatch slice_found buf idqv = Some idqv'"
  shows "length idqv' = length idqv"
    and "0 \<le> i \<Longrightarrow> \<not> (nx * ny * w \<le> i \<and> i < nx * ny * w + nx * ny) \<Longrightarrow> idqv' ! nat i = idqv ! nat i"
    and "imatch = 0 \<Longrightarrow> idqv' = idqv"
proof -
  have st: "\<exists>v. wr d j v = Some d'"
    if "do { v \<leftarrow> rd buf (j - nx * ny * w); wr d j v } = Some d'" for j d d'
    using that by (auto split: Option.bind_splits)
  show "idqv' = idqv" if "imatch = 0"
    using copy that by (simp add: nirspec_copy_def)
  show "length idqv' = length idqv"
  proof (cases "imatch > 0 \<and> slice_found = 1")
    case True
    with copy have c: "for_loop [nx * ny * w..nx * ny * w + nx * ny - 1]
                           (\<lambda>inx dq. do { v \<leftarrow> rd buf (inx - nx * ny * w); wr dq inx v })
                           idqv = Some idqv'"
      by (simp add: nirspec_copy_def Let_def)
    from store_loop_frame(1)[OF c st] show ?thesis by blast
  next
    case False
    with copy show ?thesis by (auto simp: nirspec_copy_def)
  qed
  show "idqv' ! nat i = idqv ! nat i"
    if "0 \<le> i" "\<not> (nx * ny * w \<le> i \<and> i < nx * ny * w + nx * ny)"
  proof (cases "imatch > 0 \<and> slice_found = 1")
    case True
    with copy have c: "for_loop [nx * ny * w..nx * ny * w + nx * ny - 1]
                           (\<lambda>inx dq. do { v \<leftarrow> rd buf (inx - nx * ny * w); wr dq inx v })
                           idqv = Some idqv'"
      by (simp add: nirspec_copy_def Let_def)
    from store_loop_frame(2)[OF c st, of i] that show ?thesis by auto
  next
    case False
    with copy show ?thesis by (auto simp: nirspec_copy_def)
  qed
qed

lemma nirspec_plane_effect:
  assumes pl: "nirspec_plane f32 ok overlap_partial nx ny cdelt1 cdelt2 roiw_ave xc yc zc
       coord1 coord2 wave sliceno npt w idqv = Some (Inr idqv')"
  shows "length idqv' = length idqv"
    and "0 \<le> i \<Longrightarrow> \<not> (nx * ny * w \<le> i \<and> i < nx * ny * w + nx * ny) \<Longrightarrow> idqv' ! nat i = idqv ! nat i"
    and "\<forall>p\<in>{0..npt - 1}. \<not> \<bar>zc ! nat w - wave ! nat p\<bar> < roiw_ave \<Longrightarrow> idqv' = idqv"
proof -
  from nirspec_plane_Some[OF pl] obtain imatch t ms buf slice_found where
    mt: "match_wave_plane_nirspec (zc ! nat w) roiw_ave coord1 coord2 wave sliceno npt
           = Some (imatch, t, ms)"
    and copy: "nirspec_copy nx ny w imatch slice_found buf idqv = Some idqv'"
    by blast
  show "length idqv' = length idqv" by (rule nirspec_copy_effect(1)[OF copy])
  show "0 \<le> i \<Longrightarrow> \<not> (nx * ny * w \<le> i \<and> i < nx * ny * w + nx * ny) \<Longrightarrow> idqv' ! nat i = idqv ! nat i"
    by (rule nirspec_copy_effect(2)[OF copy])
  show "idqv' = idqv" if "\<forall>p\<in>{0..npt - 1}. \<not> \<bar>zc ! nat w - wave ! nat p\<bar> < roiw_ave"
    by (rule nirspec_copy_effect(3)[OF copy nirspec_no_match[OF mt that]])
qed

lemma nirspec_planes_empty_plane:
  assumes "nirspec_planes f32 alloc_ok overlap_partial nx ny cdelt1 cdelt2 roiw_ave xc yc zc
       coord1 coord2 wave sliceno npt ws idqv = Some (Inr out)"
    and none: "\<forall>p\<in>{0..npt - 1}. \<not> \<bar>zc ! nat w - wave ! nat p\<bar> < roiw_ave"
    and i: "nx * ny * w \<le> i" "i < nx * ny * w + nx * ny" and w: "0 \<le> w"
    and "i < int (length idqv) \<longrightarrow> idqv ! nat i = 0"
  shows "i < int (length out) \<longrightarrow> out ! nat i = 0"
  using assms(1) assms(6)
proof (induction ws arbitrary: idqv)
  case Nil
  then show ?case by simp
next
  case (Cons j ws)
  from Cons.prems(1) obtain mid where
    pl: "nirspec_plane f32 (alloc_ok (nat j + 1)) overlap_partial nx ny cdelt1 cdelt2
             roiw_ave xc yc zc coord1 coord2 wave sliceno npt j idqv = Some (Inr mid)"
    and rest: "nirspec_planes f32 alloc_ok overlap_partial nx ny cdelt1 cdelt2 roiw_ave xc yc zc
            coord1 coord2 wave sliceno npt ws mid = Some (Inr out)"
    by (auto split: option.splits sum.splits)
  have "i < int (length mid) \<longrightarrow> mid ! nat i = 0"
  proof (cases "j = w")
    case True
    from nirspec_plane_effect(3)[OF pl[unfolded True] none] Cons.prems(2) show ?thesis by simp
  next
    case False
    have out: "\<not> (nx * ny * j \<le> i \<and> i < nx * ny * j + nx * ny)"
      using region_disjoint[OF i, of j] False by blast
    from nirspec_plane_effect(2)[OF pl region_nonneg[OF i w] out] nirspec_plane_effect(1)[OF pl]
      Cons.prems(2)
    show ?thesis by simp
  qed
  from Cons.IH[OF rest this] show ?case .
qed

lemma dq_nirspec_empty_plane:
  assumes run: "dq_nirspec f32 alloc_ok overlap_partial nx ny nz cdelt1 cdelt2 roiw_ave xc yc zc
       coord1 coord2 wave sliceno ncube npt = Some (status, Some out)"
    and w: "0 \<le> w"
    and none: "\<forall>p\<in>{0..npt - 1}. \<not> \<bar>zc ! nat w - wave ! nat p\<bar> < roiw_ave"
    and i: "nx * ny * w \<le> i" "i < nx * ny * w + nx * ny" "i < int (length out)"
  shows "out ! nat i = 0"
proof -
  let ?a = "case calloc_int (alloc_ok 0) ncube of None \<Rightarrow> [] | Some a \<Rightarrow> a"
  from run obtain idqv where
    zl: "for_loop [0..ncube - 1] (\<lambda>i dq. wr dq i 0) ?a = Some idqv"
    and pls: "nirspec_planes f32 alloc_ok overlap_partial nx ny cdelt1 cdelt2 roiw_ave
              xc yc zc coord1 coord2 wave sliceno npt [0..nz - 1] idqv = Some (Inr out)"
    by (auto simp: dq_nirspec_def Let_def split: Option.bind_splits sum.splits)
  have "\<forall>k<length ?a. ?a ! k = 0"
    by (auto simp: calloc_int_def split: option.splits if_splits)
  from zero_loop_all_zero[OF zl this] region_nonneg[OF i(1,2) w]
  have "i < int (length idqv) \<longrightarrow> idqv ! nat i = 0" by auto
  from nirspec_planes_empty_plane[OF pls none i(1,2) w this] i(3) show ?thesis by simp
qed

text \<open>
  Claim C6. When \<open>dq_miri\<close> returns an output array and no point of the cloud qualifies
  on plane \<open>w\<close> for the start slice or for the end slice, every entry of the array at
  the indices \<open>w * nx * ny, ..., (w + 1) * nx * ny - 1\<close> is 0. When \<open>dq_nirspec\<close>
  returns an output array and no point of the cloud lies within the region of interest
  of plane \<open>w'\<close>, every entry of the array at those indices of plane \<open>w'\<close> is 0.
\<close>

theorem empty_plane_stays_zero:
  assumes "dq_miri f32 sh_find_overlap alloc_ok start_region end_region overlap_partial overlap_full
       nx ny nz cdelt1 cdelt2 roiw_ave xc yc zc coord1 coord2 wave sliceno ncube npt
       = Some (status, Some out)"
    and "0 \<le> w" and "w < nz"
    and "\<forall>p\<in>{0..npt - 1}. \<not> miri_qualifies w start_region roiw_ave zc wave sliceno p
                         \<and> \<not> miri_qualifies w end_region roiw_ave zc wave sliceno p"
    and "dq_nirspec f32' alloc_ok' overlap_partial' nx' ny' nz' cdelt1' cdelt2' roiw_ave' xc' yc' zc'
       coord1' coord2' wave' sliceno' ncube' npt' = Some (status', Some out')"
    and "0 \<le> w'" and "w' < nz'"
    and "\<forall>p\<in>{0..npt' - 1}. \<not> \<bar>zc' ! nat w' - wave' ! nat p\<bar> < roiw_ave'"
  shows "(\<forall>i. nx * ny * w \<le> i \<and> i < nx * ny * w + nx * ny
              \<longrightarrow> i < int (length out) \<and> out ! nat i = 0)
       \<and> (\<forall>i. nx' * ny' * w' \<le> i \<and> i < nx' * ny' * w' + nx' * ny' \<and> i < int (length out')
              \<longrightarrow> out' ! nat i = 0)"
proof -
  from assms(4) have none: "\<forall>p\<in>{0..npt - 1}. \<not> miri_qualifies w start_region roiw_ave zc wave sliceno p"
    by blast
  from dq_miri_empty_plane[OF assms(1-3) none] dq_nirspec_empty_plane[OF assms(5,6,8)]
  show ?thesis by blast
qed

text \<open>
  The theorem on a cube of one cell and two planes for \<open>dq_miri\<close> and on a cube of 2 by 2
  cells and two planes for \<open>dq_nirspec\<close>; in both the points lie at the wavelength of
  plane 0 and none lies within the region of interest of plane 1.
\<close>

lemma miri_plane0_corners:
  "corner_wave_plane_miri id 0 1 2 1 [0, 5] [- 5, 5, - 5, 5] [0, 10, 0, 10]
     [0, 0, 0, 0] [1, 1, 2, 2] 2 4 ((0, 0), (0, 0), (0, 0), (0, 0))
   = Some (0, (- 5, 0), (5, 10), (5, 10), (- 5, 0))"
  by code_simp

lemma miri_plane0_overlap:
  "overlap_fov_with_spaxels (\<lambda>xc yc dx dy xs ys. 1) 4 8 (- 1) (- 1) 1 1 [0] [0]
     [- 5, 5, 5, - 5] [0, 10, 10, 0] [0] = Some [8]"
  by code_simp

lemma miri_plane0:
  "miri_plane id (\<lambda>xc yc dx dy xs ys. 1) 1 2 4 8 1 1 (- 1) (- 1) 1
     [0] [0] [0, 5] [- 5, 5, - 5, 5] [0, 10, 0, 10] [0, 0, 0, 0] [1, 1, 2, 2] 2 4 0
     ([0, 0], [0], ((0, 0), (0, 0), (0, 0), (0, 0)))
   = Some ([8, 0], [8], ((- 5, 0), (5, 10), (5, 10), (- 5, 0)))"
  by (simp add: miri_plane_def miri_plane0_corners miri_plane0_overlap rd_def wr_def upto_rec1)

lemma miri_plane1:
  "miri_plane id (\<lambda>xc yc dx dy xs ys. 1) 1 2 4 8 1 1 (- 1) (- 1) 1
     [0] [0] [0, 5] [- 5, 5, - 5, 5] [0, 10, 0, 10] [0, 0, 0, 0] [1, 1, 2, 2] 2 4 1
     ([8, 0], [8], ((- 5, 0), (5, 10), (5, 10), (- 5, 0)))
   = Some ([8, 0], [0], ((- 5, 0), (5, 10), (5, 10), (- 5, 0)))"
  by code_simp

lemma dq_miri_two_planes:
  "dq_miri id (\<lambda>xc yc dx dy xs ys. 1) (\<lambda>k. True) 1 2 4 8 1 1 2 (- 1) (- 1) 1
     [0] [0] [0, 5] [- 5, 5, - 5, 5] [0, 10, 0, 10] [0, 0, 0, 0] [1, 1, 2, 2] 2 4
   = Some (0, Some [8, 0])"
  by (simp add: dq_miri_def mem_alloc_dq_def calloc_int_def upto_rec1 numeral_2_eq_2
      miri_plane0 miri_plane1)

lemma dq_nirspec_two_planes:
  "dq_nirspec id (\<lambda>k. True) 4 2 2 2 1 1 1 [0, 1] [0, 1] [0, 5]
     [0, 1, 0, 1] [0, 1, 1, 0] [0, 0, 0, 0] [1, 1, 2, 2] 8 4
   = Some (0, Some [4, 0, 0, 4, 0, 0, 0, 0])"
  by code_simp

theorem empty_plane_stays_zero_witness:
  "dq_miri id (\<lambda>xc yc dx dy xs ys. 1) (\<lambda>k. True) 1 2 4 8 1 1 2 (- 1) (- 1) 1
     [0] [0] [0, 5] [- 5, 5, - 5, 5] [0, 10, 0, 10] [0, 0, 0, 0] [1, 1, 2, 2] 2 4
     = Some (0, Some [8, 0])
   \<and> dq_nirspec id (\<lambda>k. True) 4 2 2 2 1 1 1 [0, 1] [0, 1] [0, 5]
       [0, 1, 0, 1] [0, 1, 1, 0] [0, 0, 0, 0] [1, 1, 2, 2] 8 4
     = Some (0, Some [4, 0, 0, 4, 0, 0, 0, 0])
   \<and> \<not> (\<exists>p\<in>{0..4 - 1}. miri_qualifies 1 1 1 [0, 5] [0, 0, 0, 0] [1, 1, 2, 2] p
                       \<or> miri_qualifies 1 2 1 [0, 5] [0, 0, 0, 0] [1, 1, 2, 2] p)
   \<and> \<not> (\<exists>p\<in>{0..4 - 1}. \<bar>[0, 5] ! nat 1 - [0, 0, 0, 0] ! nat p\<bar> < (1::real))
   \<and> [8, 0] ! nat 1 = (0::int)
   \<and> [4, 0, 0, 4, 0, 0, 0, 0] ! nat 4 = (0::int)
   \<and> [4, 0, 0, 4, 0, 0, 0, 0] ! nat 7 = (0::int)"
proof -
  have none: "\<forall>p\<in>{0..4 - 1}. \<not> miri_qualifies 1 1 1 [0, 5] [0, 0, 0, 0] [1, 1, 2, 2] p
                         \<and> \<not> miri_qualifies 1 2 1 [0, 5] [0, 0, 0, 0] [1, 1, 2, 2] p"
    by code_simp
  have none': "\<forall>p\<in>{0..4 - 1}. \<not> \<bar>[0, 5] ! nat 1 - [0, 0, 0, 0] ! nat p\<bar> < (1::real)"
    by code_simp
  have w: "(0::int) \<le> 1" "(1::int) < 2" by simp_all
  note T = empty_plane_stays_zero[OF dq_miri_two_planes w none dq_nirspec_two_planes w none']
  from T have m: "[8, 0] ! nat 1 = (0::int)" by simp
  from T have "(4::int) < int (length [4, 0, 0, 4, 0, 0, 0, 0::int])
      \<longrightarrow> [4, 0, 0, 4, 0, 0, 0, 0] ! nat 4 = (0::int)"
    by simp
  then have n4: "[4, 0, 0, 4, 0, 0, 0, 0] ! nat 4 = (0::int)" by simp
  from T have "(7::int) < int (length [4, 0, 0, 4, 0, 0, 0, 0::int])
      \<longrightarrow> [4, 0, 0, 4, 0, 0, 0, 0] ! nat 7 = (0::int)"
    by simp
  then have n7: "[4, 0, 0, 4, 0, 0, 0, 0] ! nat 7 = (0::int)" by simp
  from dq_miri_two_planes dq_nirspec_two_planes none none' m n4 n7 show ?thesis by blast
qed

end
